theory Spec2Isabelle
  imports Complex_Main "HOL-Library.Word" "HOL-Library.Sublist" "HOL-Library.Monad_Syntax"
begin

section \<open>Go values and the provider SDK's resource data\<close>

text \<open>
  The adapters of this provider are Go callbacks of the form
  \<^verbatim>\<open>func(d *schema.ResourceData, m interface{}) error\<close>. They read the declarative record
  through \<^verbatim>\<open>d.Get\<close> and \<^verbatim>\<open>d.GetOk\<close>, which return \<^verbatim>\<open>interface{}\<close> values, and narrow
  them by type assertions. The values are modelled by one datatype; a failed unchecked
  assertion is a Go panic, written \<open>None\<close> in the option monad.

  Go's \<^verbatim>\<open>int\<close> carries its mathematical value (\<open>int\<close>: the code does no arithmetic on it),
  \<^verbatim>\<open>int64\<close> is a 64-bit word, and a \<^verbatim>\<open>float64\<close> that is only stored and compared with zero
  is carried as a \<open>real\<close>. A Go pointer that may be nil is an \<open>option\<close>.
\<close>

type_synonym int64 = "64 word"

datatype val =
    VNil
  | VBool bool
  | VInt int
  | VFloat real
  | VString string
  | VSet "string list"

datatype ValueType = TypeBool | TypeInt | TypeFloat | TypeString | TypeSet

fun zero_value :: "ValueType \<Rightarrow> val" where
  "zero_value TypeBool = VBool False"
| "zero_value TypeInt = VInt 0"
| "zero_value TypeFloat = VFloat 0"
| "zero_value TypeString = VString []"
| "zero_value TypeSet = VSet []"

fun has_type :: "ValueType \<Rightarrow> val \<Rightarrow> bool" where
  "has_type TypeBool (VBool _) = True"
| "has_type TypeInt (VInt _) = True"
| "has_type TypeFloat (VFloat _) = True"
| "has_type TypeString (VString _) = True"
| "has_type TypeSet (VSet _) = True"
| "has_type _ _ = False"

text \<open>
  The validators the schemas use. \<^verbatim>\<open>validation.StringInSlice(valid, false)\<close> accepts exactly
  the strings of \<open>valid\<close> (the second argument, \<^verbatim>\<open>ignoreCase\<close>, is \<^verbatim>\<open>false\<close> at every use);
  \<^verbatim>\<open>validation.StringLenBetween(min, max)\<close> accepts the strings whose length is in range.
  \<open>run_validator\<close> is \<open>True\<close> when the validator returns no error.
\<close>

datatype SchemaValidateFunc = StringInSlice "string list" | StringLenBetween nat nat

fun run_validator :: "SchemaValidateFunc \<Rightarrow> val \<Rightarrow> bool" where
  "run_validator (StringInSlice valid) (VString v) = (v \<in> set valid)"
| "run_validator (StringLenBetween lo hi) (VString v) = (lo \<le> length v \<and> length v \<le> hi)"
| "run_validator _ _ = False"

record Schema =
  Type :: ValueType
  Required :: bool
  Optional :: bool
  Computed :: bool
  Default :: "val option"
  ValidateFunc :: "SchemaValidateFunc option"

definition field :: "ValueType \<Rightarrow> Schema" where
  "field t = \<lparr>Type = t, Required = False, Optional = False, Computed = False,
              Default = None, ValidateFunc = None\<rparr>"

text \<open>
  \<^verbatim>\<open>schema.ResourceData\<close>: the schema of the resource, the stored identifier (\<^verbatim>\<open>d.Id()\<close>,
  \<^verbatim>\<open>d.SetId\<close>) and the attribute values that are set. A key without a value is an attribute
  the record leaves unset.
\<close>

record ResourceData =
  rd_schema :: "(string \<times> Schema) list"
  rd_Id :: string
  rd_attrs :: "string \<rightharpoonup> val"

definition SetId :: "string \<Rightarrow> ResourceData \<Rightarrow> ResourceData" where
  "SetId v d = d\<lparr>rd_Id := v\<rparr>"

definition Set :: "string \<Rightarrow> val \<Rightarrow> ResourceData \<Rightarrow> ResourceData" where
  "Set k v d = d\<lparr>rd_attrs := (rd_attrs d)(k \<mapsto> v)\<rparr>"

text \<open>
  \<^verbatim>\<open>d.Get(key)\<close>: the value that is set; for an unset attribute the schema's \<^verbatim>\<open>Default\<close>
  ("a value to set if this attribute is not set in the configuration"), and without a
  default the zero value of the schema's type.

  \<^verbatim>\<open>d.GetOk(key)\<close>: the same value, and "whether or not the key has been set to a non-zero
  value": the flag is false for an attribute that is unset and has no default, and also for one
  whose value is the zero value of its type (\<^verbatim>\<open>0\<close>, \<^verbatim>\<open>""\<close>, \<^verbatim>\<open>false\<close>).
\<close>

definition Get :: "ResourceData \<Rightarrow> string \<Rightarrow> val" where
  "Get d k =
     (case rd_attrs d k of
        Some v \<Rightarrow> v
      | None \<Rightarrow>
          (case map_of (rd_schema d) k of
             None \<Rightarrow> VNil
           | Some s \<Rightarrow> (case Default s of Some v \<Rightarrow> v | None \<Rightarrow> zero_value (Type s))))"

definition GetOk :: "ResourceData \<Rightarrow> string \<Rightarrow> val \<times> bool" where
  "GetOk d k =
     (let v = Get d k in
      (v, case map_of (rd_schema d) k of
            None \<Rightarrow> False
          | Some s \<Rightarrow> v \<noteq> zero_value (Type s)))"

text \<open>Checked assertions \<^verbatim>\<open>v, ok := x.(T)\<close> and unchecked ones \<^verbatim>\<open>x.(T)\<close>, which panic.\<close>

fun string_ok :: "val \<Rightarrow> string \<times> bool" where
  "string_ok (VString s) = (s, True)"
| "string_ok _ = ([], False)"

fun the_string :: "val \<Rightarrow> string option" where
  "the_string (VString s) = Some s"
| "the_string _ = None"

fun the_int :: "val \<Rightarrow> int option" where
  "the_int (VInt i) = Some i"
| "the_int _ = None"

fun the_float64 :: "val \<Rightarrow> real option" where
  "the_float64 (VFloat x) = Some x"
| "the_float64 _ = None"

fun the_bool :: "val \<Rightarrow> bool option" where
  "the_bool (VBool b) = Some b"
| "the_bool _ = None"

definition to_int64 :: "int \<Rightarrow> int64" where
  "to_int64 i = word_of_int i"

definition strToPtr :: "string \<Rightarrow> string option" where
  "strToPtr s = Some s"

definition int64ToPtr :: "int64 \<Rightarrow> int64 option" where
  "int64ToPtr i = Some i"

definition float64ToPtr :: "real \<Rightarrow> real option" where
  "float64ToPtr x = Some x"

text \<open>
  The values of a resource data conform to its schema when every value that is set, and every
  default, has the type its schema declares. The SDK maintains this; under it no unchecked
  assertion of the adapters panics.
\<close>

definition conforms :: "ResourceData \<Rightarrow> bool" where
  "conforms d =
     list_all (\<lambda>(k, s).
        (case rd_attrs d k of None \<Rightarrow> True | Some v \<Rightarrow> has_type (Type s) v) \<and>
        (case Default s of None \<Rightarrow> True | Some v \<Rightarrow> has_type (Type s) v)) (rd_schema d)"

section \<open>strconv\<close>

text \<open>
  \<^verbatim>\<open>strconv.FormatInt(i, 10)\<close> and \<^verbatim>\<open>strconv.ParseInt(s, 10, 64)\<close>. The adapters drop the
  error of \<^verbatim>\<open>ParseInt\<close> and use its value: 0 after a syntax error, the nearest bound after a
  range error.
\<close>

definition digit_char :: "nat \<Rightarrow> char" where
  "digit_char n = ''0123456789'' ! n"

function format_nat :: "nat \<Rightarrow> string" where
  "format_nat n = (if n < 10 then [digit_char n] else format_nat (n div 10) @ [digit_char (n mod 10)])"
  by pat_completeness auto
termination
  by (relation "measure id") auto

declare format_nat.simps [simp del]

definition format_int :: "int \<Rightarrow> string" where
  "format_int i = (if i < 0 then CHR ''-'' # format_nat (nat (- i)) else format_nat (nat i))"

definition FormatInt :: "int64 \<Rightarrow> string" where
  "FormatInt i = format_int (sint i)"

definition is_digit :: "char \<Rightarrow> bool" where
  "is_digit c = (48 \<le> (of_char c :: nat) \<and> (of_char c :: nat) \<le> 57)"

fun parse_digits :: "nat \<Rightarrow> string \<Rightarrow> nat option" where
  "parse_digits acc [] = Some acc"
| "parse_digits acc (c # cs) =
     (if is_digit c then parse_digits (acc * 10 + (of_char c - 48)) cs else None)"

definition parse_int :: "string \<Rightarrow> int" where
  "parse_int s =
     (let neg = (s \<noteq> [] \<and> hd s = CHR ''-'');
          ds = (if s \<noteq> [] \<and> (hd s = CHR ''+'' \<or> hd s = CHR ''-'') then tl s else s)
      in if ds = [] then 0
         else (case parse_digits 0 ds of
                 None \<Rightarrow> 0
               | Some un \<Rightarrow>
                   if \<not> neg \<and> 2 ^ 63 \<le> un then 2 ^ 63 - 1
                   else if neg \<and> 2 ^ 63 < un then - (2 ^ 63)
                   else if neg then - int un else int un))"

definition ParseInt :: "string \<Rightarrow> int64" where
  "ParseInt s = word_of_int (parse_int s)"

section \<open>The inventory service\<close>

text \<open>
  The generated client (\<^verbatim>\<open>client.NetBoxAPI\<close>) is a collaborator: each of its methods takes the
  call's parameters and returns a payload or an error. An error is either the method's typed
  default response (\<^verbatim>\<open>*dcim.DcimDeviceTypesReadDefault\<close> and its siblings), which carries the
  HTTP status code, or any other error value (a transport failure). The service is a parameter of
  the model: a record of functions over a service state \<open>'s\<close> of any type.
\<close>

datatype api_error = DefaultResponse int | OtherError string


record NestedTag =
  tag_ID :: int64
  tag_Name :: string

record IpamVlanGroupsListParams =
  vgp_Limit :: "int64 option"
  vgp_Name :: "string option"
  vgp_Slug :: "string option"
  vgp_ScopeType :: "string option"
  vgp_ScopeID :: "string option"

definition NewIpamVlanGroupsListParams :: IpamVlanGroupsListParams where
  "NewIpamVlanGroupsListParams =
     \<lparr>vgp_Limit = None, vgp_Name = None, vgp_Slug = None, vgp_ScopeType = None, vgp_ScopeID = None\<rparr>"

record VLANGroup =
  vg_ID :: int64
  vg_Name :: string
  vg_Slug :: string
  vg_MinVid :: int64
  vg_MaxVid :: int64
  vg_VlanCount :: int64
  vg_Description :: string

record IpamVlanGroupsListOKBody =
  vgl_Count :: "int64 option"
  vgl_Results :: "VLANGroup list"

record WritableDeviceType =
  wdt_Model :: "string option"
  wdt_Slug :: "string option"
  wdt_Manufacturer :: "int64 option"
  wdt_PartNumber :: string
  wdt_UHeight :: "real option"
  wdt_IsFullDepth :: bool
  wdt_Tags :: "NestedTag list"

definition empty_WritableDeviceType :: WritableDeviceType where
  "empty_WritableDeviceType =
     \<lparr>wdt_Model = None, wdt_Slug = None, wdt_Manufacturer = None, wdt_PartNumber = [],
      wdt_UHeight = None, wdt_IsFullDepth = False, wdt_Tags = []\<rparr>"

record DeviceType =
  dt_ID :: int64
  dt_Model :: string
  dt_Slug :: string
  dt_Manufacturer_ID :: int64
  dt_PartNumber :: string
  dt_UHeight :: real
  dt_IsFullDepth :: bool
  dt_Tags :: "NestedTag list"

record WritableIPRange =
  wir_StartAddress :: "string option"
  wir_EndAddress :: "string option"
  wir_Status :: string
  wir_Description :: string
  wir_Comments :: string
  wir_Vrf :: "int64 option"
  wir_Tenant :: "int64 option"
  wir_Role :: "int64 option"
  wir_Tags :: "NestedTag list"

definition empty_WritableIPRange :: WritableIPRange where
  "empty_WritableIPRange =
     \<lparr>wir_StartAddress = None, wir_EndAddress = None, wir_Status = [], wir_Description = [],
      wir_Comments = [], wir_Vrf = None, wir_Tenant = None, wir_Role = None, wir_Tags = []\<rparr>"

record IPRange =
  ir_ID :: int64
  ir_StartAddress :: "string option"
  ir_EndAddress :: "string option"
  ir_Status_Value :: "string option"
  ir_Vrf_ID :: "int64 option"
  ir_Description :: string
  ir_Comments :: string
  ir_Tenant_ID :: "int64 option"
  ir_Role_ID :: "int64 option"
  ir_Tags :: "NestedTag list"

text \<open>
  The client, and the helpers of the provider whose declarations are not among the sources
  (\<^verbatim>\<open>getSlug\<close>, \<^verbatim>\<open>getOptionalStr\<close>, \<^verbatim>\<open>getNestedTagListFromResourceDataSet\<close>,
  \<^verbatim>\<open>getTagListFromNestedTagList\<close>): they are parameters too. The tag helper receives the client,
  so it may change the service state; it returns the tags and diagnostics.
\<close>

record 's NetBoxAPI =
  IpamVlanGroupsList :: "IpamVlanGroupsListParams \<Rightarrow> 's \<Rightarrow> (api_error + IpamVlanGroupsListOKBody) \<times> 's"
  DcimDeviceTypesCreate :: "WritableDeviceType \<Rightarrow> 's \<Rightarrow> (api_error + DeviceType) \<times> 's"
  DcimDeviceTypesRead :: "int64 \<Rightarrow> 's \<Rightarrow> (api_error + DeviceType) \<times> 's"
  DcimDeviceTypesPartialUpdate :: "int64 \<Rightarrow> WritableDeviceType \<Rightarrow> 's \<Rightarrow> (api_error + DeviceType) \<times> 's"
  DcimDeviceTypesDelete :: "int64 \<Rightarrow> 's \<Rightarrow> (api_error + unit) \<times> 's"
  IpamIPRangesCreate :: "WritableIPRange \<Rightarrow> 's \<Rightarrow> (api_error + IPRange) \<times> 's"
  IpamIPRangesRead :: "int64 \<Rightarrow> 's \<Rightarrow> (api_error + IPRange) \<times> 's"
  IpamIPRangesUpdate :: "int64 \<Rightarrow> WritableIPRange \<Rightarrow> 's \<Rightarrow> (api_error + IPRange) \<times> 's"
  IpamIPRangesDelete :: "int64 \<Rightarrow> 's \<Rightarrow> (api_error + unit) \<times> 's"
  getNestedTagListFromResourceDataSet :: "val \<Rightarrow> 's \<Rightarrow> (NestedTag list \<times> string list) \<times> 's"
  getTagListFromNestedTagList :: "NestedTag list \<Rightarrow> val"
  getSlug :: "string \<Rightarrow> string"
  getOptionalStr :: "ResourceData \<Rightarrow> string \<Rightarrow> bool \<Rightarrow> string"

text \<open>
  The calls an adapter makes are recorded, in order, with the error each one returned, beside the
  service state. The properties of call sequences are stated on this record; the adapters never
  read it.
\<close>

datatype call =
    Call_IpamVlanGroupsList IpamVlanGroupsListParams
  | Call_DcimDeviceTypesCreate WritableDeviceType
  | Call_DcimDeviceTypesRead int64
  | Call_DcimDeviceTypesPartialUpdate int64 WritableDeviceType
  | Call_DcimDeviceTypesDelete int64
  | Call_IpamIPRangesCreate WritableIPRange
  | Call_IpamIPRangesRead int64
  | Call_IpamIPRangesUpdate int64 WritableIPRange
  | Call_IpamIPRangesDelete int64
  | Call_getNestedTagList val

record 's world =
  svc :: 's
  calls :: "(call \<times> api_error option) list"

definition invoke ::
  "call \<Rightarrow> ('s \<Rightarrow> (api_error + 'r) \<times> 's) \<Rightarrow> 's world \<Rightarrow> (api_error + 'r) \<times> 's world" where
  "invoke c f w =
     (case f (svc w) of
        (r, s') \<Rightarrow>
          (r, \<lparr>svc = s', calls = calls w @ [(c, case r of Inl e \<Rightarrow> Some e | Inr _ \<Rightarrow> None)]\<rparr>))"

definition resolve_tags :: "'s NetBoxAPI \<Rightarrow> val \<Rightarrow> 's world \<Rightarrow> NestedTag list \<times> 's world" where
  "resolve_tags api v w =
     (case getNestedTagListFromResourceDataSet api v (svc w) of
        ((tags, _), s') \<Rightarrow> (tags, \<lparr>svc = s', calls = calls w @ [(Call_getNestedTagList v, None)]\<rparr>))"

text \<open>
  What a callback does: it returns an \<^verbatim>\<open>error\<close> (\<open>None\<close> is \<^verbatim>\<open>nil\<close>), or it panics. An error
  is the value a service call produced, or one made by \<^verbatim>\<open>errors.New\<close>.
\<close>

datatype error = ApiError api_error | ErrorsNew string

datatype outcome = Return "error option" | Panic

section \<open>The VLAN group data source\<close>

text \<open>
  Modelled from the spec: \<^verbatim>\<open>resourceNetboxVlanGroupScopeTypeOptions\<close>, the allowed scope types,
  is declared outside the sources ("Enum-valued fields are validated against a fixed allowed
  set"); the schema takes the list as a parameter.
\<close>

definition dataSourceNetboxVlanGroup_schema :: "string list \<Rightarrow> (string \<times> Schema) list" where
  "dataSourceNetboxVlanGroup_schema resourceNetboxVlanGroupScopeTypeOptions =
     [(''name'', (field TypeString)\<lparr>Computed := True, Optional := True\<rparr>),
      (''slug'', (field TypeString)\<lparr>Optional := True, Computed := True\<rparr>),
      (''scope_type'', (field TypeString)\<lparr>Optional := True,
          ValidateFunc := Some (StringInSlice resourceNetboxVlanGroupScopeTypeOptions)\<rparr>),
      (''scope_id'', (field TypeInt)\<lparr>Optional := True\<rparr>),
      (''min_vid'', (field TypeInt)\<lparr>Computed := True\<rparr>),
      (''max_vid'', (field TypeInt)\<lparr>Computed := True\<rparr>),
      (''vlan_count'', (field TypeInt)\<lparr>Computed := True\<rparr>),
      (''description'', (field TypeString)\<lparr>Computed := True\<rparr>)]"

text \<open>The list parameters \<^verbatim>\<open>dataSourceNetboxVlanGroupRead\<close> builds (lines 74 to 88).\<close>

definition vlanGroupRead_params :: "ResourceData \<Rightarrow> IpamVlanGroupsListParams" where
  "vlanGroupRead_params d =
     (let params = NewIpamVlanGroupsListParams;
          params = params\<lparr>vgp_Limit := int64ToPtr 2\<rparr>;
          params = (case string_ok (Get d ''name'') of
                      (name, ok) \<Rightarrow> if ok \<and> name \<noteq> [] then params\<lparr>vgp_Name := Some name\<rparr> else params);
          params = (case string_ok (Get d ''slug'') of
                      (slug, ok) \<Rightarrow> if ok \<and> slug \<noteq> [] then params\<lparr>vgp_Slug := Some slug\<rparr> else params);
          params = (case string_ok (Get d ''scope_type'') of
                      (scopeType, ok) \<Rightarrow>
                        if ok \<and> scopeType \<noteq> [] then params\<lparr>vgp_ScopeType := Some scopeType\<rparr> else params);
          params = (case string_ok (Get d ''scope_id'') of
                      (scopeID, ok) \<Rightarrow>
                        if ok \<and> scopeID \<noteq> [] then params\<lparr>vgp_ScopeID := vgp_ScopeID params\<rparr> else params)
      in params)"

definition vlanGroupRead_store :: "VLANGroup \<Rightarrow> ResourceData \<Rightarrow> ResourceData" where
  "vlanGroupRead_store result d =
     (let d = SetId (FormatInt (vg_ID result)) d;
          d = Set ''name'' (VString (vg_Name result)) d;
          d = Set ''slug'' (VString (vg_Slug result)) d;
          d = Set ''min_vid'' (VInt (sint (vg_MinVid result))) d;
          d = Set ''max_vid'' (VInt (sint (vg_MaxVid result))) d;
          d = Set ''vlan_count'' (VInt (sint (vg_VlanCount result))) d;
          d = Set ''description'' (VString (vg_Description result)) d
      in d)"

definition dataSourceNetboxVlanGroupRead ::
  "'s NetBoxAPI \<Rightarrow> ResourceData \<Rightarrow> 's world \<Rightarrow> outcome \<times> ResourceData \<times> 's world" where
  "dataSourceNetboxVlanGroupRead api d w =
     (let params = vlanGroupRead_params d in
      case invoke (Call_IpamVlanGroupsList params) (IpamVlanGroupsList api params) w of
        (Inl err, w) \<Rightarrow> (Return (Some (ApiError err)), d, w)
      | (Inr res, w) \<Rightarrow>
          (case vgl_Count res of
             None \<Rightarrow> (Panic, d, w)
           | Some count \<Rightarrow>
               if 1 < sint count then
                 (Return (Some (ErrorsNew ''more than one vlan group returned, specify a more narrow filter'')), d, w)
               else if count = 0 then
                 (Return (Some (ErrorsNew ''no vlan group found matching filter'')), d, w)
               else
                 (case vgl_Results res of
                    [] \<Rightarrow> (Panic, d, w)
                  | result # _ \<Rightarrow> (Return None, vlanGroupRead_store result d, w))))"

section \<open>The device type resource\<close>

text \<open>
  Modelled from the spec: \<^verbatim>\<open>tagsKey\<close> and \<^verbatim>\<open>tagsSchema\<close>, the key and the schema of the Tag Set
  field ("an ordered list of string labels"), are declared outside the sources.
\<close>

definition tagsKey :: string where
  "tagsKey = ''tags''"

definition tagsSchema :: Schema where
  "tagsSchema = (field TypeSet)\<lparr>Optional := True\<rparr>"

text \<open>
  The schema declares \<^verbatim>\<open>Default: "1.0"\<close> for the float \<^verbatim>\<open>u_height\<close>; the SDK decodes a default
  to the type of its field, so the default value is the float 1.0.
\<close>

definition resourceNetboxDeviceType_schema :: "(string \<times> Schema) list" where
  "resourceNetboxDeviceType_schema =
     [(''model'', (field TypeString)\<lparr>Required := True\<rparr>),
      (''slug'', (field TypeString)\<lparr>Optional := True, Computed := True,
          ValidateFunc := Some (StringLenBetween 1 100)\<rparr>),
      (''manufacturer_id'', (field TypeInt)\<lparr>Required := True\<rparr>),
      (''part_number'', (field TypeString)\<lparr>Optional := True\<rparr>),
      (''u_height'', (field TypeFloat)\<lparr>Optional := True, Default := Some (VFloat 1)\<rparr>),
      (''is_full_depth'', (field TypeBool)\<lparr>Optional := True\<rparr>),
      (tagsKey, tagsSchema)]"

text \<open>Lines 69 to 97 of \<^verbatim>\<open>resourceNetboxDeviceTypeCreate\<close>: the payload before its tags.\<close>

definition deviceTypeCreate_data :: "'s NetBoxAPI \<Rightarrow> ResourceData \<Rightarrow> WritableDeviceType option" where
  "deviceTypeCreate_data api d = do {
     let data = empty_WritableDeviceType;
     model \<leftarrow> the_string (Get d ''model'');
     let data = data\<lparr>wdt_Model := Some model\<rparr>;
     let (slugValue, slugOk) = GetOk d ''slug'';
     data \<leftarrow> (if \<not> slugOk then Some (data\<lparr>wdt_Slug := strToPtr (getSlug api model)\<rparr>)
              else do { slug \<leftarrow> the_string slugValue; Some (data\<lparr>wdt_Slug := strToPtr slug\<rparr>) });
     let (manufacturerIDValue, ok) = GetOk d ''manufacturer_id'';
     data \<leftarrow> (if ok then do { i \<leftarrow> the_int manufacturerIDValue;
                              Some (data\<lparr>wdt_Manufacturer := int64ToPtr (to_int64 i)\<rparr>) }
              else Some data);
     let (partNo, ok) = GetOk d ''part_number'';
     data \<leftarrow> (if ok then do { p \<leftarrow> the_string partNo; Some (data\<lparr>wdt_PartNumber := p\<rparr>) }
              else Some data);
     let (uHeightValue, ok) = GetOk d ''u_height'';
     data \<leftarrow> (if ok then do { h \<leftarrow> the_float64 uHeightValue;
                              Some (data\<lparr>wdt_UHeight := float64ToPtr h\<rparr>) }
              else Some data);
     let (isFullDepthValue, ok) = GetOk d ''is_full_depth'';
     data \<leftarrow> (if ok then do { b \<leftarrow> the_bool isFullDepthValue; Some (data\<lparr>wdt_IsFullDepth := b\<rparr>) }
              else Some data);
     Some data
   }"

text \<open>Lines 148 to 174 of \<^verbatim>\<open>resourceNetboxDeviceTypeUpdate\<close>.\<close>

definition deviceTypeUpdate_data :: "'s NetBoxAPI \<Rightarrow> ResourceData \<Rightarrow> WritableDeviceType option" where
  "deviceTypeUpdate_data api d = do {
     let data = empty_WritableDeviceType;
     model \<leftarrow> the_string (Get d ''model'');
     let data = data\<lparr>wdt_Model := Some model\<rparr>;
     let (slugValue, slugOk) = GetOk d ''slug'';
     data \<leftarrow> (if \<not> slugOk then Some (data\<lparr>wdt_Slug := strToPtr (getSlug api model)\<rparr>)
              else do { slug \<leftarrow> the_string slugValue; Some (data\<lparr>wdt_Slug := strToPtr slug\<rparr>) });
     let (manufacturerIDValue, ok) = GetOk d ''manufacturer_id'';
     data \<leftarrow> (if ok then do { i \<leftarrow> the_int manufacturerIDValue;
                              Some (data\<lparr>wdt_Manufacturer := int64ToPtr (to_int64 i)\<rparr>) }
              else Some data);
     let (partNo, ok) = GetOk d ''part_number'';
     data \<leftarrow> (if ok then do { p \<leftarrow> the_string partNo; Some (data\<lparr>wdt_PartNumber := p\<rparr>) }
              else Some data);
     h \<leftarrow> the_float64 (Get d ''u_height'');
     let data = data\<lparr>wdt_UHeight := float64ToPtr h\<rparr>;
     let (isFullDepthValue, ok) = GetOk d ''is_full_depth'';
     data \<leftarrow> (if ok then do { b \<leftarrow> the_bool isFullDepthValue; Some (data\<lparr>wdt_IsFullDepth := b\<rparr>) }
              else Some data);
     Some data
   }"

definition deviceTypeRead_store :: "'s NetBoxAPI \<Rightarrow> DeviceType \<Rightarrow> ResourceData \<Rightarrow> ResourceData" where
  "deviceTypeRead_store api deviceType d =
     (let d = Set ''model'' (VString (dt_Model deviceType)) d;
          d = Set ''slug'' (VString (dt_Slug deviceType)) d;
          d = Set ''manufacturer_id'' (VInt (sint (dt_Manufacturer_ID deviceType))) d;
          d = Set ''part_number'' (VString (dt_PartNumber deviceType)) d;
          d = Set ''u_height'' (VFloat (dt_UHeight deviceType)) d;
          d = Set ''is_full_depth'' (VBool (dt_IsFullDepth deviceType)) d;
          d = Set tagsKey (getTagListFromNestedTagList api (dt_Tags deviceType)) d
      in d)"

definition resourceNetboxDeviceTypeRead ::
  "'s NetBoxAPI \<Rightarrow> ResourceData \<Rightarrow> 's world \<Rightarrow> outcome \<times> ResourceData \<times> 's world" where
  "resourceNetboxDeviceTypeRead api d w =
     (let id = ParseInt (rd_Id d) in
      case invoke (Call_DcimDeviceTypesRead id) (DcimDeviceTypesRead api id) w of
        (Inl err, w) \<Rightarrow>
          (case err of
             DefaultResponse errorcode \<Rightarrow>
               if errorcode = 404 then (Return None, SetId [] d, w)
               else (Return (Some (ApiError err)), d, w)
           | OtherError _ \<Rightarrow> (Return (Some (ApiError err)), d, w))
      | (Inr deviceType, w) \<Rightarrow> (Return None, deviceTypeRead_store api deviceType d, w))"

definition resourceNetboxDeviceTypeCreate ::
  "'s NetBoxAPI \<Rightarrow> ResourceData \<Rightarrow> 's world \<Rightarrow> outcome \<times> ResourceData \<times> 's world" where
  "resourceNetboxDeviceTypeCreate api d w =
     (case deviceTypeCreate_data api d of
        None \<Rightarrow> (Panic, d, w)
      | Some data \<Rightarrow>
          (case resolve_tags api (Get d tagsKey) w of
             (tags, w) \<Rightarrow>
               (let data = data\<lparr>wdt_Tags := tags\<rparr> in
                case invoke (Call_DcimDeviceTypesCreate data) (DcimDeviceTypesCreate api data) w of
                  (Inl err, w) \<Rightarrow> (Return (Some (ApiError err)), d, w)
                | (Inr res, w) \<Rightarrow>
                    resourceNetboxDeviceTypeRead api (SetId (FormatInt (dt_ID res)) d) w)))"


definition resourceNetboxDeviceTypeDelete ::
  "'s NetBoxAPI \<Rightarrow> ResourceData \<Rightarrow> 's world \<Rightarrow> outcome \<times> ResourceData \<times> 's world" where
  "resourceNetboxDeviceTypeDelete api d w =
     (let id = ParseInt (rd_Id d) in
      case invoke (Call_DcimDeviceTypesDelete id) (DcimDeviceTypesDelete api id) w of
        (Inl err, w) \<Rightarrow>
          (case err of
             DefaultResponse code \<Rightarrow>
               if code = 404 then (Return None, SetId [] d, w)
               else (Return (Some (ApiError err)), d, w)
           | OtherError _ \<Rightarrow> (Return (Some (ApiError err)), d, w))
      | (Inr _, w) \<Rightarrow> (Return None, d, w))"

section \<open>The IP range resource\<close>

definition resourceNetboxIPRangeStatusOptions :: "string list" where
  "resourceNetboxIPRangeStatusOptions = [''active'', ''reserved'', ''deprecated'']"

definition resourceNetboxIPRange_schema :: "(string \<times> Schema) list" where
  "resourceNetboxIPRange_schema =
     [(''start_address'', (field TypeString)\<lparr>Required := True\<rparr>),
      (''end_address'', (field TypeString)\<lparr>Required := True\<rparr>),
      (''status'', (field TypeString)\<lparr>Optional := True, Default := Some (VString ''active''),
          ValidateFunc := Some (StringInSlice resourceNetboxIPRangeStatusOptions)\<rparr>),
      (''tenant_id'', (field TypeInt)\<lparr>Optional := True\<rparr>),
      (''role_id'', (field TypeInt)\<lparr>Optional := True\<rparr>),
      (''vrf_id'', (field TypeInt)\<lparr>Optional := True\<rparr>),
      (''description'', (field TypeString)\<lparr>Optional := True\<rparr>),
      (''comments'', (field TypeString)\<lparr>Optional := True\<rparr>),
      (tagsKey, tagsSchema)]"

text \<open>Lines 95 to 101 of \<^verbatim>\<open>resourceNetboxIPRangeCreate\<close>.\<close>

definition ipRangeCreate_data :: "'s NetBoxAPI \<Rightarrow> ResourceData \<Rightarrow> WritableIPRange option" where
  "ipRangeCreate_data api d = do {
     let data = empty_WritableIPRange;
     startAddress \<leftarrow> the_string (Get d ''start_address'');
     let data = data\<lparr>wir_StartAddress := strToPtr startAddress\<rparr>;
     endAddress \<leftarrow> the_string (Get d ''end_address'');
     let data = data\<lparr>wir_EndAddress := strToPtr endAddress\<rparr>;
     status \<leftarrow> the_string (Get d ''status'');
     let data = data\<lparr>wir_Status := status\<rparr>;
     let data = data\<lparr>wir_Description := getOptionalStr api d ''description'' True\<rparr>;
     Some data
   }"

text \<open>Lines 170 to 189 of \<^verbatim>\<open>resourceNetboxIPRangeUpdate\<close>.\<close>

definition ipRangeUpdate_data :: "'s NetBoxAPI \<Rightarrow> ResourceData \<Rightarrow> WritableIPRange option" where
  "ipRangeUpdate_data api d = do {
     let data = empty_WritableIPRange;
     startAddress \<leftarrow> the_string (Get d ''start_address'');
     let data = data\<lparr>wir_StartAddress := strToPtr startAddress\<rparr>;
     endAddress \<leftarrow> the_string (Get d ''end_address'');
     let data = data\<lparr>wir_EndAddress := strToPtr endAddress\<rparr>;
     status \<leftarrow> the_string (Get d ''status'');
     let data = data\<lparr>wir_Status := status\<rparr>;
     let data = data\<lparr>wir_Description := getOptionalStr api d ''description'' True\<rparr>;
     let data = data\<lparr>wir_Comments := getOptionalStr api d ''comments'' True\<rparr>;
     let (vrfID, ok) = GetOk d ''vrf_id'';
     data \<leftarrow> (if ok then do { i \<leftarrow> the_int vrfID; Some (data\<lparr>wir_Vrf := int64ToPtr (to_int64 i)\<rparr>) }
              else Some data);
     let (tenantID, ok) = GetOk d ''tenant_id'';
     data \<leftarrow> (if ok then do { i \<leftarrow> the_int tenantID; Some (data\<lparr>wir_Tenant := int64ToPtr (to_int64 i)\<rparr>) }
              else Some data);
     let (roleID, ok) = GetOk d ''role_id'';
     data \<leftarrow> (if ok then do { i \<leftarrow> the_int roleID; Some (data\<lparr>wir_Role := int64ToPtr (to_int64 i)\<rparr>) }
              else Some data);
     Some data
   }"

definition ipRangeRead_store :: "'s NetBoxAPI \<Rightarrow> IPRange \<Rightarrow> ResourceData \<Rightarrow> ResourceData" where
  "ipRangeRead_store api payload d =
     (let d = (case ir_StartAddress payload of None \<Rightarrow> d | Some a \<Rightarrow> Set ''start_address'' (VString a) d);
          d = (case ir_EndAddress payload of None \<Rightarrow> d | Some a \<Rightarrow> Set ''end_address'' (VString a) d);
          d = (case ir_Status_Value payload of None \<Rightarrow> d | Some v \<Rightarrow> Set ''status'' (VString v) d);
          d = (case ir_Vrf_ID payload of None \<Rightarrow> d | Some i \<Rightarrow> Set ''vrf_id'' (VInt (sint i)) d);
          d = Set ''description'' (VString (ir_Description payload)) d;
          d = Set ''comments'' (VString (ir_Comments payload)) d;
          d = (case ir_Tenant_ID payload of None \<Rightarrow> d | Some i \<Rightarrow> Set ''tenant_id'' (VInt (sint i)) d);
          d = (case ir_Role_ID payload of None \<Rightarrow> d | Some i \<Rightarrow> Set ''role_id'' (VInt (sint i)) d);
          d = Set tagsKey (getTagListFromNestedTagList api (ir_Tags payload)) d
      in d)"

definition resourceNetboxIPRangeRead ::
  "'s NetBoxAPI \<Rightarrow> ResourceData \<Rightarrow> 's world \<Rightarrow> outcome \<times> ResourceData \<times> 's world" where
  "resourceNetboxIPRangeRead api d w =
     (let id = ParseInt (rd_Id d) in
      case invoke (Call_IpamIPRangesRead id) (IpamIPRangesRead api id) w of
        (Inl err, w) \<Rightarrow>
          (case err of
             DefaultResponse errorcode \<Rightarrow>
               if errorcode = 404 then (Return None, SetId [] d, w)
               else (Return (Some (ApiError err)), d, w)
           | OtherError _ \<Rightarrow> (Return (Some (ApiError err)), d, w))
      | (Inr payload, w) \<Rightarrow> (Return None, ipRangeRead_store api payload d, w))"

definition resourceNetboxIPRangeUpdate ::
  "'s NetBoxAPI \<Rightarrow> ResourceData \<Rightarrow> 's world \<Rightarrow> outcome \<times> ResourceData \<times> 's world" where
  "resourceNetboxIPRangeUpdate api d w =
     (let id = ParseInt (rd_Id d) in
      case ipRangeUpdate_data api d of
        None \<Rightarrow> (Panic, d, w)
      | Some data \<Rightarrow>
          (case resolve_tags api (Get d tagsKey) w of
             (tags, w) \<Rightarrow>
               (let data = data\<lparr>wir_Tags := tags\<rparr> in
                case invoke (Call_IpamIPRangesUpdate id data) (IpamIPRangesUpdate api id data) w of
                  (Inl err, w) \<Rightarrow> (Return (Some (ApiError err)), d, w)
                | (Inr _, w) \<Rightarrow> resourceNetboxIPRangeRead api d w)))"

definition resourceNetboxIPRangeCreate ::
  "'s NetBoxAPI \<Rightarrow> ResourceData \<Rightarrow> 's world \<Rightarrow> outcome \<times> ResourceData \<times> 's world" where
  "resourceNetboxIPRangeCreate api d w =
     (case ipRangeCreate_data api d of
        None \<Rightarrow> (Panic, d, w)
      | Some data \<Rightarrow>
          (case resolve_tags api (Get d tagsKey) w of
             (tags, w) \<Rightarrow>
               (let data = data\<lparr>wir_Tags := tags\<rparr> in
                case invoke (Call_IpamIPRangesCreate data) (IpamIPRangesCreate api data) w of
                  (Inl err, w) \<Rightarrow> (Return (Some (ApiError err)), d, w)
                | (Inr res, w) \<Rightarrow>
                    resourceNetboxIPRangeUpdate api (SetId (FormatInt (ir_ID res)) d) w)))"

definition resourceNetboxIPRangeDelete ::
  "'s NetBoxAPI \<Rightarrow> ResourceData \<Rightarrow> 's world \<Rightarrow> outcome \<times> ResourceData \<times> 's world" where
  "resourceNetboxIPRangeDelete api d w =
     (let id = ParseInt (rd_Id d) in
      case invoke (Call_IpamIPRangesDelete id) (IpamIPRangesDelete api id) w of
        (Inl err, w) \<Rightarrow>
          (case err of
             DefaultResponse code \<Rightarrow>
               if code = 404 then (Return None, SetId [] d, w)
               else (Return (Some (ApiError err)), d, w)
           | OtherError _ \<Rightarrow> (Return (Some (ApiError err)), d, w))
      | (Inr _, w) \<Rightarrow> (Return None, d, w))"

section \<open>Validation before the callbacks\<close>

text \<open>
  Terraform validates a configuration against the schema of its resource before any callback
  of the resource runs: a required attribute must be set, and a value that is set must have the
  type of its field and pass the field's \<^verbatim>\<open>ValidateFunc\<close>. A default is not validated.
  \<open>ApplyCreate\<close> is that order of events for a Create callback: a configuration that fails
  validation is rejected, and the callback (with its service calls) is not run.
\<close>

definition validate_field :: "(string \<rightharpoonup> val) \<Rightarrow> string \<times> Schema \<Rightarrow> bool" where
  "validate_field config =
     (\<lambda>(k, s). case config k of
                  None \<Rightarrow> \<not> Required s
                | Some v \<Rightarrow>
                    has_type (Type s) v \<and>
                    (case ValidateFunc s of None \<Rightarrow> True | Some f \<Rightarrow> run_validator f v))"

definition Validate :: "ResourceData \<Rightarrow> bool" where
  "Validate d = list_all (validate_field (rd_attrs d)) (rd_schema d)"

datatype applied = Rejected | Ran outcome

definition ApplyCreate ::
  "('s NetBoxAPI \<Rightarrow> ResourceData \<Rightarrow> 's world \<Rightarrow> outcome \<times> ResourceData \<times> 's world) \<Rightarrow>
   's NetBoxAPI \<Rightarrow> ResourceData \<Rightarrow> 's world \<Rightarrow> applied \<times> ResourceData \<times> 's world" where
  "ApplyCreate create api d w =
     (if \<not> Validate d then (Rejected, d, w)
      else (case create api d w of (r, d', w') \<Rightarrow> (Ran r, d', w')))"

section \<open>Diff suppression of the free-text fields\<close>

text \<open>
  \<^verbatim>\<open>strings.TrimSpace\<close> removes leading and trailing white space "as defined by Unicode" from a
  string of UTF-8 bytes. \<open>space_runes\<close> lists the UTF-8 encodings of the code points
  \<^verbatim>\<open>unicode.IsSpace\<close> accepts: U+0009 to U+000D, U+0020, U+0085, U+00A0, U+1680, U+2000 to
  U+200A, U+2028, U+2029, U+202F, U+205F and U+3000. A string begins (ends) with a white
  space rune exactly when one of these encodings is a prefix (suffix) of it.
\<close>

definition space_runes :: "string list" where
  "space_runes =
     [[CHR 0x09], [CHR 0x0A], [CHR 0x0B], [CHR 0x0C], [CHR 0x0D], [CHR 0x20],
      [CHR 0xC2, CHR 0x85], [CHR 0xC2, CHR 0xA0],
      [CHR 0xE1, CHR 0x9A, CHR 0x80],
      [CHR 0xE2, CHR 0x80, CHR 0x80], [CHR 0xE2, CHR 0x80, CHR 0x81],
      [CHR 0xE2, CHR 0x80, CHR 0x82], [CHR 0xE2, CHR 0x80, CHR 0x83],
      [CHR 0xE2, CHR 0x80, CHR 0x84], [CHR 0xE2, CHR 0x80, CHR 0x85],
      [CHR 0xE2, CHR 0x80, CHR 0x86], [CHR 0xE2, CHR 0x80, CHR 0x87],
      [CHR 0xE2, CHR 0x80, CHR 0x88], [CHR 0xE2, CHR 0x80, CHR 0x89],
      [CHR 0xE2, CHR 0x80, CHR 0x8A],
      [CHR 0xE2, CHR 0x80, CHR 0xA8], [CHR 0xE2, CHR 0x80, CHR 0xA9],
      [CHR 0xE2, CHR 0x80, CHR 0xAF],
      [CHR 0xE2, CHR 0x81, CHR 0x9F],
      [CHR 0xE3, CHR 0x80, CHR 0x80]]"

definition leading_space :: "string \<Rightarrow> string option" where
  "leading_space s = find (\<lambda>e. prefix e s) space_runes"

definition trailing_space :: "string \<Rightarrow> string option" where
  "trailing_space s = find (\<lambda>e. suffix e s) space_runes"

function TrimLeft :: "string \<Rightarrow> string" where
  "TrimLeft s = (case leading_space s of None \<Rightarrow> s | Some e \<Rightarrow> TrimLeft (drop (length e) s))"
  by pat_completeness auto
termination
proof (relation "measure length")
  show "wf (measure length)" by simp
next
  fix s e :: string
  assume "leading_space s = Some e"
  then have "e \<in> set space_runes" and "prefix e s"
    by (auto simp: leading_space_def find_Some_iff)
  then have "e \<noteq> []" and "length e \<le> length s"
    by (auto simp: space_runes_def prefix_length_le)
  then show "(drop (length e) s, s) \<in> measure length"
    by (cases e) auto
qed

function TrimRight :: "string \<Rightarrow> string" where
  "TrimRight s =
     (case trailing_space s of None \<Rightarrow> s | Some e \<Rightarrow> TrimRight (take (length s - length e) s))"
  by pat_completeness auto
termination
proof (relation "measure length")
  show "wf (measure length)" by simp
next
  fix s e :: string
  assume "trailing_space s = Some e"
  then have "e \<in> set space_runes" and "suffix e s"
    by (auto simp: trailing_space_def find_Some_iff)
  then have "e \<noteq> []" and "length e \<le> length s"
    by (auto simp: space_runes_def suffix_length_le)
  then show "(take (length s - length e) s, s) \<in> measure length"
    by (cases e) auto
qed

declare TrimLeft.simps [simp del] TrimRight.simps [simp del]

definition TrimSpace :: "string \<Rightarrow> string" where
  "TrimSpace s = TrimRight (TrimLeft s)"

text \<open>The \<^verbatim>\<open>DiffSuppressFunc\<close> of \<^verbatim>\<open>description\<close> and of \<^verbatim>\<open>comments\<close> in the IP range schema.\<close>

definition description_DiffSuppressFunc :: "string \<Rightarrow> string \<Rightarrow> string \<Rightarrow> ResourceData \<Rightarrow> bool" where
  "description_DiffSuppressFunc k oldValue newValue d = (TrimSpace oldValue = TrimSpace newValue)"

definition comments_DiffSuppressFunc :: "string \<Rightarrow> string \<Rightarrow> string \<Rightarrow> ResourceData \<Rightarrow> bool" where
  "comments_DiffSuppressFunc k oldValue newValue d = (TrimSpace oldValue = TrimSpace newValue)"

text \<open>A string of white space only; a string with no white space at either end.\<close>

definition blank :: "string \<Rightarrow> bool" where
  "blank s = (TrimLeft s = [])"

definition trimmed :: "string \<Rightarrow> bool" where
  "trimmed s = (leading_space s = None \<and> trailing_space s = None)"

text \<open>The bytes 0x80 to 0xBF, which only continue a UTF-8 sequence.\<close>

definition continuation_byte :: "char \<Rightarrow> bool" where
  "continuation_byte c = (128 \<le> (of_char c :: nat) \<and> (of_char c :: nat) < 192)"

section \<open>Call sequences\<close>

text \<open>
  The calls made between two worlds, and the property that a failed call is final: a call that
  failed with anything but a 404 default response is the last call made, and the callback
  returns the error of that call.
\<close>

definition new_calls :: "'s world \<Rightarrow> 's world \<Rightarrow> (call \<times> api_error option) list" where
  "new_calls w w' = drop (length (calls w)) (calls w')"



section \<open>A service double and sample records\<close>

text \<open>
  A service that answers every call with a fixed entity, for running the adapters on concrete
  records. Its failing variants replace one method.
\<close>

definition sample_VLANGroup :: VLANGroup where
  "sample_VLANGroup =
     \<lparr>vg_ID = 12, vg_Name = ''Core'', vg_Slug = ''core'', vg_MinVid = 1, vg_MaxVid = 4094,
      vg_VlanCount = 3, vg_Description = ''core vlans''\<rparr>"

definition sample_DeviceType :: DeviceType where
  "sample_DeviceType =
     \<lparr>dt_ID = 7, dt_Model = ''Catalyst 9300'', dt_Slug = ''catalyst-9300'', dt_Manufacturer_ID = 3,
      dt_PartNumber = [], dt_UHeight = 1, dt_IsFullDepth = False, dt_Tags = []\<rparr>"

definition sample_IPRange :: IPRange where
  "sample_IPRange =
     \<lparr>ir_ID = 5, ir_StartAddress = Some ''10.0.0.1'', ir_EndAddress = Some ''10.0.0.10'',
      ir_Status_Value = Some ''active'', ir_Vrf_ID = None, ir_Description = [], ir_Comments = [],
      ir_Tenant_ID = None, ir_Role_ID = None, ir_Tags = []\<rparr>"

definition double_api :: "unit NetBoxAPI" where
  "double_api =
     \<lparr>IpamVlanGroupsList = (\<lambda>p s. (Inr \<lparr>vgl_Count = Some 1, vgl_Results = [sample_VLANGroup]\<rparr>, s)),
      DcimDeviceTypesCreate = (\<lambda>data s. (Inr sample_DeviceType, s)),
      DcimDeviceTypesRead = (\<lambda>i s. (Inr sample_DeviceType, s)),
      DcimDeviceTypesPartialUpdate = (\<lambda>i data s. (Inr sample_DeviceType, s)),
      DcimDeviceTypesDelete = (\<lambda>i s. (Inr (), s)),
      IpamIPRangesCreate = (\<lambda>data s. (Inr sample_IPRange, s)),
      IpamIPRangesRead = (\<lambda>i s. (Inr sample_IPRange, s)),
      IpamIPRangesUpdate = (\<lambda>i data s. (Inr sample_IPRange, s)),
      IpamIPRangesDelete = (\<lambda>i s. (Inr (), s)),
      getNestedTagListFromResourceDataSet = (\<lambda>v s. (([], []), s)),
      getTagListFromNestedTagList = (\<lambda>ts. VSet (map tag_Name ts)),
      getSlug = (\<lambda>s. s),
      getOptionalStr = (\<lambda>d k b. [])\<rparr>"

definition list_answer :: "int64 \<Rightarrow> VLANGroup list \<Rightarrow> unit NetBoxAPI" where
  "list_answer n rs =
     double_api\<lparr>IpamVlanGroupsList := (\<lambda>p s. (Inr \<lparr>vgl_Count = Some n, vgl_Results = rs\<rparr>, s))\<rparr>"

definition sample_WritableDeviceType :: WritableDeviceType where
  "sample_WritableDeviceType =
     \<lparr>wdt_Model = Some ''Catalyst 9300'', wdt_Slug = Some ''Catalyst 9300'', wdt_Manufacturer = Some 3,
      wdt_PartNumber = [], wdt_UHeight = Some 1, wdt_IsFullDepth = False, wdt_Tags = []\<rparr>"

definition sample_WritableIPRange :: WritableIPRange where
  "sample_WritableIPRange =
     empty_WritableIPRange\<lparr>wir_StartAddress := Some ''10.0.0.1'', wir_EndAddress := Some ''10.0.0.10'',
        wir_Status := ''active''\<rparr>"

definition update_fails :: "unit NetBoxAPI" where
  "update_fails = double_api\<lparr>IpamIPRangesUpdate := (\<lambda>i data s. (Inl (DefaultResponse 500), s))\<rparr>"

definition w0 :: "unit world" where
  "w0 = \<lparr>svc = (), calls = []\<rparr>"

definition sample_vlan_lookup :: ResourceData where
  "sample_vlan_lookup =
     \<lparr>rd_schema = dataSourceNetboxVlanGroup_schema [''dcim.site''], rd_Id = [],
      rd_attrs = [''slug'' \<mapsto> VString ''core'']\<rparr>"

definition sample_device_type :: ResourceData where
  "sample_device_type =
     \<lparr>rd_schema = resourceNetboxDeviceType_schema, rd_Id = [],
      rd_attrs = [''model'' \<mapsto> VString ''Catalyst 9300'', ''manufacturer_id'' \<mapsto> VInt 3]\<rparr>"

definition sample_ip_range :: ResourceData where
  "sample_ip_range =
     \<lparr>rd_schema = resourceNetboxIPRange_schema, rd_Id = [],
      rd_attrs = [''start_address'' \<mapsto> VString ''10.0.0.1'', ''end_address'' \<mapsto> VString ''10.0.0.10'']\<rparr>"

section \<open>Facts about resource data and call records\<close>

lemma new_calls_append [simp]:
  "new_calls w \<lparr>svc = s, calls = calls w @ cs\<rparr> = cs"
  by (simp add: new_calls_def)

lemma new_calls_same [simp]: "new_calls w w = []"
  by (simp add: new_calls_def)

lemma has_type_cases:
  "has_type TypeString v \<longleftrightarrow> (\<exists>s. v = VString s)"
  "has_type TypeInt v \<longleftrightarrow> (\<exists>i. v = VInt i)"
  "has_type TypeFloat v \<longleftrightarrow> (\<exists>x. v = VFloat x)"
  "has_type TypeBool v \<longleftrightarrow> (\<exists>b. v = VBool b)"
  "has_type TypeSet v \<longleftrightarrow> (\<exists>xs. v = VSet xs)"
  by (cases v; simp)+

lemma has_type_zero_value: "has_type t (zero_value t)"
  by (cases t) simp_all

text \<open>Under conformance, \<open>Get\<close> returns a value of the type the schema declares.\<close>

lemma conforms_Get:
  assumes "conforms d" and "map_of (rd_schema d) k = Some s"
  shows "has_type (Type s) (Get d k)"
proof -
  have "(k, s) \<in> set (rd_schema d)"
    using assms(2) by (rule map_of_SomeD)
  then have "(case rd_attrs d k of None \<Rightarrow> True | Some v \<Rightarrow> has_type (Type s) v) \<and>
      (case Default s of None \<Rightarrow> True | Some v \<Rightarrow> has_type (Type s) v)"
    using assms(1) by (auto simp: conforms_def list_all_iff)
  then show ?thesis
    using assms(2) by (auto simp: Get_def has_type_zero_value split: option.splits)
qed

lemma ip_range_schema_lookup:
  "map_of resourceNetboxIPRange_schema ''start_address'' = Some ((field TypeString)\<lparr>Required := True\<rparr>)"
  "map_of resourceNetboxIPRange_schema ''end_address'' = Some ((field TypeString)\<lparr>Required := True\<rparr>)"
  "map_of resourceNetboxIPRange_schema ''status'' =
     Some ((field TypeString)\<lparr>Optional := True, Default := Some (VString ''active''),
        ValidateFunc := Some (StringInSlice resourceNetboxIPRangeStatusOptions)\<rparr>)"
  "map_of resourceNetboxIPRange_schema ''tenant_id'' = Some ((field TypeInt)\<lparr>Optional := True\<rparr>)"
  "map_of resourceNetboxIPRange_schema ''role_id'' = Some ((field TypeInt)\<lparr>Optional := True\<rparr>)"
  "map_of resourceNetboxIPRange_schema ''vrf_id'' = Some ((field TypeInt)\<lparr>Optional := True\<rparr>)"
  by (simp_all add: resourceNetboxIPRange_schema_def)

lemma ip_range_Get_typed:
  assumes "rd_schema d = resourceNetboxIPRange_schema" and "conforms d"
  shows "\<exists>a. Get d ''start_address'' = VString a"
    and "\<exists>a. Get d ''end_address'' = VString a"
    and "\<exists>a. Get d ''status'' = VString a"
    and "\<exists>i. Get d ''tenant_id'' = VInt i"
    and "\<exists>i. Get d ''role_id'' = VInt i"
    and "\<exists>i. Get d ''vrf_id'' = VInt i"
  using conforms_Get [OF assms(2), of "''start_address''"] conforms_Get [OF assms(2), of "''end_address''"]
    conforms_Get [OF assms(2), of "''status''"] conforms_Get [OF assms(2), of "''tenant_id''"]
    conforms_Get [OF assms(2), of "''role_id''"] conforms_Get [OF assms(2), of "''vrf_id''"]
  by (simp_all add: assms(1) ip_range_schema_lookup field_def has_type_cases)

section \<open>Facts about strconv\<close>

text \<open>Parsing the decimal form of an \<^verbatim>\<open>int64\<close> gives the number back.\<close>

lemma digit_char_digit: "d < 10 \<Longrightarrow> is_digit (digit_char d) \<and> (of_char (digit_char d) :: nat) - 48 = d"
proof -
  assume "d < 10"
  then have "d \<in> {0, 1, 2, 3, 4, 5, 6, 7, 8, 9}" by auto
  then show ?thesis
    by (auto simp: digit_char_def is_digit_def)
qed

lemma digit_char_not_sign: "d < 10 \<Longrightarrow> digit_char d \<noteq> CHR ''-'' \<and> digit_char d \<noteq> CHR ''+''"
proof -
  assume "d < 10"
  then have "d \<in> {0, 1, 2, 3, 4, 5, 6, 7, 8, 9}" by auto
  then show ?thesis
    by (auto simp: digit_char_def)
qed

lemma parse_digits_append:
  "parse_digits acc (xs @ ys) = (case parse_digits acc xs of None \<Rightarrow> None | Some a \<Rightarrow> parse_digits a ys)"
  by (induction xs arbitrary: acc) auto

lemma parse_digits_format_nat: "parse_digits 0 (format_nat n) = Some n"
proof (induction n rule: format_nat.induct)
  case (1 n)
  show ?case
  proof (cases "n < 10")
    case True
    then show ?thesis
      by (subst format_nat.simps) (simp add: digit_char_digit)
  next
    case False
    then have ih: "parse_digits 0 (format_nat (n div 10)) = Some (n div 10)"
      using 1 by simp
    have "n mod 10 < 10" by simp
    then show ?thesis
      using False ih
      by (subst format_nat.simps) (simp add: parse_digits_append digit_char_digit)
  qed
qed

lemma format_nat_hd: "format_nat n \<noteq> [] \<and> hd (format_nat n) \<noteq> CHR ''-'' \<and> hd (format_nat n) \<noteq> CHR ''+''"
proof (induction n rule: format_nat.induct)
  case (1 n)
  show ?case
  proof (cases "n < 10")
    case True
    then show ?thesis
      by (subst (1 2 3) format_nat.simps) (simp add: digit_char_not_sign)
  next
    case False
    then show ?thesis
      using 1 by (subst (1 2 3) format_nat.simps) simp
  qed
qed

lemma parse_int_format_int:
  assumes "- (2 ^ 63) \<le> i" and "i < 2 ^ 63"
  shows "parse_int (format_int i) = i"
proof (cases "i < 0")
  case True
  have "\<not> (2 ^ 63 :: nat) < nat (- i)"
    using assms by simp
  then show ?thesis
    using True assms format_nat_hd [of "nat (- i)"]
    by (simp add: parse_int_def format_int_def parse_digits_format_nat Let_def)
next
  case False
  have "\<not> (2 ^ 63 :: nat) \<le> nat i"
    using assms by simp
  then show ?thesis
    using False assms format_nat_hd [of "nat i"]
    by (simp add: parse_int_def format_int_def parse_digits_format_nat Let_def)
qed

lemma ParseInt_FormatInt: "ParseInt (FormatInt i) = i"
proof -
  have "- (2 ^ 63) \<le> sint i" and "sint i < 2 ^ 63"
    using sint_ge [of i] sint_lt [of i] by simp_all
  then show ?thesis
    by (simp add: ParseInt_def FormatInt_def parse_int_format_int)
qed

lemma ParseInt_numerals: "ParseInt ''5'' = 5" "ParseInt ''7'' = 7" "ParseInt ''12'' = 12"
  by (simp_all add: ParseInt_def parse_int_def is_digit_def)

lemma FormatInt_numerals: "FormatInt 5 = ''5''" "FormatInt 7 = ''7''" "FormatInt 12 = ''12''"
  by (simp_all add: FormatInt_def format_int_def format_nat.simps digit_char_def)

section \<open>The adapters on the sample records\<close>

lemma sample_ip_range_data:
  assumes "getOptionalStr api = (\<lambda>d k b. [])"
  shows "ipRangeCreate_data api (sample_ip_range\<lparr>rd_Id := i\<rparr>) =
     Some (empty_WritableIPRange\<lparr>wir_StartAddress := Some ''10.0.0.1'', wir_EndAddress := Some ''10.0.0.10'',
        wir_Status := ''active''\<rparr>)"
    and "ipRangeUpdate_data api (sample_ip_range\<lparr>rd_Id := i\<rparr>) =
     Some (empty_WritableIPRange\<lparr>wir_StartAddress := Some ''10.0.0.1'', wir_EndAddress := Some ''10.0.0.10'',
        wir_Status := ''active''\<rparr>)"
    and "Get (sample_ip_range\<lparr>rd_Id := i\<rparr>) tagsKey = VSet []"
  by (simp_all add: ipRangeCreate_data_def ipRangeUpdate_data_def sample_ip_range_def
      resourceNetboxIPRange_schema_def Get_def GetOk_def field_def tagsKey_def tagsSchema_def strToPtr_def
      assms empty_WritableIPRange_def)

lemma sample_ip_range_self: "sample_ip_range\<lparr>rd_Id := []\<rparr> = sample_ip_range"
  by (simp add: sample_ip_range_def)

lemma sample_optional_str:
  "getOptionalStr double_api = (\<lambda>d k b. [])" "getOptionalStr update_fails = (\<lambda>d k b. [])"
  by (simp_all add: double_api_def update_fails_def)

lemma double_api_sel:
  "IpamVlanGroupsList double_api = (\<lambda>p s. (Inr \<lparr>vgl_Count = Some 1, vgl_Results = [sample_VLANGroup]\<rparr>, s))"
  "DcimDeviceTypesCreate double_api = (\<lambda>data s. (Inr sample_DeviceType, s))"
  "DcimDeviceTypesRead double_api = (\<lambda>i s. (Inr sample_DeviceType, s))"
  "DcimDeviceTypesPartialUpdate double_api = (\<lambda>i data s. (Inr sample_DeviceType, s))"
  "DcimDeviceTypesDelete double_api = (\<lambda>i s. (Inr (), s))"
  "IpamIPRangesCreate double_api = (\<lambda>data s. (Inr sample_IPRange, s))"
  "IpamIPRangesRead double_api = (\<lambda>i s. (Inr sample_IPRange, s))"
  "IpamIPRangesUpdate double_api = (\<lambda>i data s. (Inr sample_IPRange, s))"
  "IpamIPRangesDelete double_api = (\<lambda>i s. (Inr (), s))"
  "getNestedTagListFromResourceDataSet double_api = (\<lambda>v s. (([], []), s))"
  "getTagListFromNestedTagList double_api = (\<lambda>ts. VSet (map tag_Name ts))"
  "getSlug double_api = (\<lambda>s. s)"
  "getOptionalStr double_api = (\<lambda>d k b. [])"
  by (simp_all add: double_api_def)


lemma sample_ip_range_create_run:
  "resourceNetboxIPRangeCreate double_api sample_ip_range w0 =
     (Return None, ipRangeRead_store double_api sample_IPRange (sample_ip_range\<lparr>rd_Id := ''5''\<rparr>),
      \<lparr>svc = (), calls =
        [(Call_getNestedTagList (VSet []), None),
         (Call_IpamIPRangesCreate sample_WritableIPRange, None),
         (Call_getNestedTagList (VSet []), None),
         (Call_IpamIPRangesUpdate 5 sample_WritableIPRange, None),
         (Call_IpamIPRangesRead 5, None)]\<rparr>)"
proof -
  have t: "wir_Tags sample_WritableIPRange = []"
    by (simp add: sample_WritableIPRange_def empty_WritableIPRange_def)
  have c: "ipRangeCreate_data double_api sample_ip_range = Some sample_WritableIPRange"
    using sample_ip_range_data(1) [OF sample_optional_str(1), where i = "[]"]
    by (simp add: sample_ip_range_self sample_WritableIPRange_def)
  have g: "Get sample_ip_range tagsKey = VSet []"
    using sample_ip_range_data(3) [OF sample_optional_str(1), where i = "[]"] by (simp add: sample_ip_range_self)
  have u: "ipRangeUpdate_data double_api (sample_ip_range\<lparr>rd_Id := ''5''\<rparr>) = Some sample_WritableIPRange"
    using sample_ip_range_data(2) [OF sample_optional_str(1), where i = "''5''"]
    by (simp add: sample_WritableIPRange_def)
  have r: "sample_WritableIPRange\<lparr>wir_Tags := []\<rparr> = sample_WritableIPRange"
    by (simp add: sample_WritableIPRange_def empty_WritableIPRange_def)
  have i: "ir_ID sample_IPRange = 5" by (simp add: sample_IPRange_def)
  show ?thesis
    by (simp add: resourceNetboxIPRangeCreate_def resourceNetboxIPRangeUpdate_def
        resourceNetboxIPRangeRead_def c g u r i sample_ip_range_data(3) [OF sample_optional_str(1)] resolve_tags_def invoke_def
        double_api_sel w0_def SetId_def FormatInt_numerals ParseInt_numerals Let_def)
qed


lemma sample_device_type_data:
  assumes "getSlug api = (\<lambda>s. s)"
  shows "deviceTypeCreate_data api (sample_device_type\<lparr>rd_Id := i\<rparr>) = Some sample_WritableDeviceType"
    and "deviceTypeUpdate_data api (sample_device_type\<lparr>rd_Id := i\<rparr>) = Some sample_WritableDeviceType"
    and "Get (sample_device_type\<lparr>rd_Id := i\<rparr>) tagsKey = VSet []"
  by (simp_all add: deviceTypeCreate_data_def deviceTypeUpdate_data_def sample_device_type_def
      resourceNetboxDeviceType_schema_def Get_def GetOk_def field_def tagsKey_def tagsSchema_def strToPtr_def
      int64ToPtr_def float64ToPtr_def to_int64_def
      assms empty_WritableDeviceType_def sample_WritableDeviceType_def)

lemma sample_device_type_self: "sample_device_type\<lparr>rd_Id := []\<rparr> = sample_device_type"
  by (simp add: sample_device_type_def)

lemma sample_device_type_create_run:
  "resourceNetboxDeviceTypeCreate double_api sample_device_type w0 =
     (Return None, deviceTypeRead_store double_api sample_DeviceType (sample_device_type\<lparr>rd_Id := ''7''\<rparr>),
      \<lparr>svc = (), calls =
        [(Call_getNestedTagList (VSet []), None),
         (Call_DcimDeviceTypesCreate sample_WritableDeviceType, None),
         (Call_DcimDeviceTypesRead 7, None)]\<rparr>)"
proof -
  have c: "deviceTypeCreate_data double_api sample_device_type = Some sample_WritableDeviceType"
    using sample_device_type_data(1) [OF double_api_sel(12), where i = "[]"]
    by (simp add: sample_device_type_self)
  have g: "Get sample_device_type tagsKey = VSet []"
    using sample_device_type_data(3) [OF double_api_sel(12), where i = "[]"]
    by (simp add: sample_device_type_self)
  have r: "sample_WritableDeviceType\<lparr>wdt_Tags := []\<rparr> = sample_WritableDeviceType"
    by (simp add: sample_WritableDeviceType_def)
  have i: "dt_ID sample_DeviceType = 7" by (simp add: sample_DeviceType_def)
  show ?thesis
    by (simp add: resourceNetboxDeviceTypeCreate_def resourceNetboxDeviceTypeRead_def
        c g r i resolve_tags_def invoke_def
        double_api_sel w0_def SetId_def FormatInt_numerals ParseInt_numerals Let_def)
qed

section \<open>Read and Delete of an entity the service no longer has\<close>

text \<open>
  C3. Read of either resource issues one get call for the parsed identifier. When the call fails
  with the 404 default response, Read returns no error and sets the stored identifier to the
  empty string; when it fails with any other error, Read returns that error and leaves the
  record as it was.
\<close>

theorem read_not_found_is_absent:
  "(DcimDeviceTypesRead api (ParseInt (rd_Id d)) (svc w) = (Inl e, s) \<longrightarrow>
      resourceNetboxDeviceTypeRead api d w =
        (let w' = \<lparr>svc = s, calls = calls w @ [(Call_DcimDeviceTypesRead (ParseInt (rd_Id d)), Some e)]\<rparr>
         in if e = DefaultResponse 404 then (Return None, d\<lparr>rd_Id := []\<rparr>, w')
            else (Return (Some (ApiError e)), d, w')))
   \<and> (IpamIPRangesRead api (ParseInt (rd_Id d)) (svc w) = (Inl e, s) \<longrightarrow>
      resourceNetboxIPRangeRead api d w =
        (let w' = \<lparr>svc = s, calls = calls w @ [(Call_IpamIPRangesRead (ParseInt (rd_Id d)), Some e)]\<rparr>
         in if e = DefaultResponse 404 then (Return None, d\<lparr>rd_Id := []\<rparr>, w')
            else (Return (Some (ApiError e)), d, w')))"
  by (cases e) (simp_all add: resourceNetboxDeviceTypeRead_def resourceNetboxIPRangeRead_def
      invoke_def SetId_def Let_def)

theorem read_not_found_is_absent_witness:
  "resourceNetboxDeviceTypeRead (double_api\<lparr>DcimDeviceTypesRead := (\<lambda>i s. (Inl (DefaultResponse 404), s))\<rparr>)
      (sample_device_type\<lparr>rd_Id := ''7''\<rparr>) w0 =
     (Return None, sample_device_type\<lparr>rd_Id := []\<rparr>,
      \<lparr>svc = (), calls = [(Call_DcimDeviceTypesRead 7, Some (DefaultResponse 404))]\<rparr>)
   \<and> resourceNetboxIPRangeRead (double_api\<lparr>IpamIPRangesRead := (\<lambda>i s. (Inl (DefaultResponse 500), s))\<rparr>)
      (sample_ip_range\<lparr>rd_Id := ''5''\<rparr>) w0 =
     (Return (Some (ApiError (DefaultResponse 500))), sample_ip_range\<lparr>rd_Id := ''5''\<rparr>,
      \<lparr>svc = (), calls = [(Call_IpamIPRangesRead 5, Some (DefaultResponse 500))]\<rparr>)"
proof -
  have p7: "ParseInt ''7'' = 7" and p5: "ParseInt ''5'' = 5"
    by (simp_all add: ParseInt_numerals)
  show ?thesis
    using read_not_found_is_absent [of "double_api\<lparr>DcimDeviceTypesRead := (\<lambda>i s. (Inl (DefaultResponse 404), s))\<rparr>"
        "sample_device_type\<lparr>rd_Id := ''7''\<rparr>" w0 "DefaultResponse 404" "()"]
      read_not_found_is_absent [of "double_api\<lparr>IpamIPRangesRead := (\<lambda>i s. (Inl (DefaultResponse 500), s))\<rparr>"
        "sample_ip_range\<lparr>rd_Id := ''5''\<rparr>" w0 "DefaultResponse 500" "()"]
    by (simp add: p7 p5 w0_def double_api_def Let_def)
qed

text \<open>
  C4. Delete of either resource issues one delete call. When the call fails with the 404 default
  response, Delete returns no error and sets the stored identifier to the empty string, so
  deleting an entity that is already absent succeeds; any other error is returned.
\<close>

theorem delete_is_idempotent:
  "(DcimDeviceTypesDelete api (ParseInt (rd_Id d)) (svc w) = (Inl e, s) \<longrightarrow>
      resourceNetboxDeviceTypeDelete api d w =
        (let w' = \<lparr>svc = s, calls = calls w @ [(Call_DcimDeviceTypesDelete (ParseInt (rd_Id d)), Some e)]\<rparr>
         in if e = DefaultResponse 404 then (Return None, d\<lparr>rd_Id := []\<rparr>, w')
            else (Return (Some (ApiError e)), d, w')))
   \<and> (IpamIPRangesDelete api (ParseInt (rd_Id d)) (svc w) = (Inl e, s) \<longrightarrow>
      resourceNetboxIPRangeDelete api d w =
        (let w' = \<lparr>svc = s, calls = calls w @ [(Call_IpamIPRangesDelete (ParseInt (rd_Id d)), Some e)]\<rparr>
         in if e = DefaultResponse 404 then (Return None, d\<lparr>rd_Id := []\<rparr>, w')
            else (Return (Some (ApiError e)), d, w')))"
  by (cases e) (simp_all add: resourceNetboxDeviceTypeDelete_def resourceNetboxIPRangeDelete_def
      invoke_def SetId_def Let_def)

theorem delete_is_idempotent_witness:
  "resourceNetboxDeviceTypeDelete (double_api\<lparr>DcimDeviceTypesDelete := (\<lambda>i s. (Inl (DefaultResponse 404), s))\<rparr>)
      (sample_device_type\<lparr>rd_Id := ''7''\<rparr>) w0 =
     (Return None, sample_device_type\<lparr>rd_Id := []\<rparr>,
      \<lparr>svc = (), calls = [(Call_DcimDeviceTypesDelete 7, Some (DefaultResponse 404))]\<rparr>)
   \<and> resourceNetboxIPRangeDelete (double_api\<lparr>IpamIPRangesDelete := (\<lambda>i s. (Inl (OtherError ''connection refused''), s))\<rparr>)
      (sample_ip_range\<lparr>rd_Id := ''5''\<rparr>) w0 =
     (Return (Some (ApiError (OtherError ''connection refused''))), sample_ip_range\<lparr>rd_Id := ''5''\<rparr>,
      \<lparr>svc = (), calls = [(Call_IpamIPRangesDelete 5, Some (OtherError ''connection refused''))]\<rparr>)"
proof -
  have p7: "ParseInt ''7'' = 7" and p5: "ParseInt ''5'' = 5"
    by (simp_all add: ParseInt_numerals)
  show ?thesis
    using delete_is_idempotent [of "double_api\<lparr>DcimDeviceTypesDelete := (\<lambda>i s. (Inl (DefaultResponse 404), s))\<rparr>"
        "sample_device_type\<lparr>rd_Id := ''7''\<rparr>" w0 "DefaultResponse 404" "()"]
      delete_is_idempotent [of "double_api\<lparr>IpamIPRangesDelete := (\<lambda>i s. (Inl (OtherError ''connection refused''), s))\<rparr>"
        "sample_ip_range\<lparr>rd_Id := ''5''\<rparr>" w0 "OtherError ''connection refused''" "()"]
    by (simp add: p7 p5 w0_def double_api_def Let_def)
qed

section \<open>The VLAN group lookup\<close>

lemma vlan_limit: "vgp_Limit (vlanGroupRead_params d) = Some 2"
  by (simp add: vlanGroupRead_params_def Let_def int64ToPtr_def NewIpamVlanGroupsListParams_def
      split: prod.splits)

lemma sample_vlan_params:
  "vlanGroupRead_params sample_vlan_lookup =
     \<lparr>vgp_Limit = Some 2, vgp_Name = None, vgp_Slug = Some ''core'', vgp_ScopeType = None, vgp_ScopeID = None\<rparr>"
  by (simp add: vlanGroupRead_params_def sample_vlan_lookup_def Let_def Get_def
      dataSourceNetboxVlanGroup_schema_def field_def NewIpamVlanGroupsListParams_def int64ToPtr_def)

lemma sample_vlan_read:
  "dataSourceNetboxVlanGroupRead double_api sample_vlan_lookup w0 =
     (Return None, vlanGroupRead_store sample_VLANGroup sample_vlan_lookup,
      \<lparr>svc = (), calls = [(Call_IpamVlanGroupsList (vlanGroupRead_params sample_vlan_lookup), None)]\<rparr>)"
  by (simp add: dataSourceNetboxVlanGroupRead_def invoke_def double_api_def w0_def Let_def)

text \<open>
  C1. The list query of the lookup always carries the limit 2. When the service answers it with
  a count of 0 the lookup returns the error "no vlan group found matching filter"; with a count
  of 2 or more, the error "more than one vlan group returned, specify a more narrow filter"; with
  a count of 1 and one result, it returns no error, having stored the identifier of the result
  (in decimal) and its name, slug, min_vid, max_vid, vlan_count and description.
\<close>

theorem vlan_group_lookup_needs_one_match:
  assumes "IpamVlanGroupsList api (vlanGroupRead_params d) (svc w) = (Inr res, s)"
      and "vgl_Count res = Some n"
      and "w' = \<lparr>svc = s, calls = calls w @ [(Call_IpamVlanGroupsList (vlanGroupRead_params d), None)]\<rparr>"
  shows "vgp_Limit (vlanGroupRead_params d) = Some 2
    \<and> (n = 0 \<longrightarrow> dataSourceNetboxVlanGroupRead api d w =
          (Return (Some (ErrorsNew ''no vlan group found matching filter'')), d, w'))
    \<and> (2 \<le> sint n \<longrightarrow> dataSourceNetboxVlanGroupRead api d w =
          (Return (Some (ErrorsNew ''more than one vlan group returned, specify a more narrow filter'')), d, w'))
    \<and> (n = 1 \<and> vgl_Results res = [result] \<longrightarrow> dataSourceNetboxVlanGroupRead api d w =
          (Return None,
           d\<lparr>rd_Id := FormatInt (vg_ID result),
             rd_attrs := (rd_attrs d)(''name'' \<mapsto> VString (vg_Name result),
                ''slug'' \<mapsto> VString (vg_Slug result),
                ''min_vid'' \<mapsto> VInt (sint (vg_MinVid result)),
                ''max_vid'' \<mapsto> VInt (sint (vg_MaxVid result)),
                ''vlan_count'' \<mapsto> VInt (sint (vg_VlanCount result)),
                ''description'' \<mapsto> VString (vg_Description result))\<rparr>, w'))"
proof -
  have "n = 0 \<Longrightarrow> \<not> 1 < sint n" by simp
  moreover have "n = 1 \<Longrightarrow> \<not> 1 < sint n \<and> n \<noteq> 0" by simp
  moreover have "2 \<le> sint n \<Longrightarrow> 1 < sint n" by simp
  ultimately show ?thesis
    using assms
    by (auto simp: vlan_limit dataSourceNetboxVlanGroupRead_def invoke_def Let_def
        vlanGroupRead_store_def SetId_def Set_def)
qed

theorem vlan_group_lookup_needs_one_match_witness:
  "dataSourceNetboxVlanGroupRead (list_answer 0 []) sample_vlan_lookup w0 =
     (Return (Some (ErrorsNew ''no vlan group found matching filter'')), sample_vlan_lookup,
      \<lparr>svc = (), calls = [(Call_IpamVlanGroupsList (vlanGroupRead_params sample_vlan_lookup), None)]\<rparr>)
   \<and> dataSourceNetboxVlanGroupRead (list_answer 2 [sample_VLANGroup, sample_VLANGroup]) sample_vlan_lookup w0 =
     (Return (Some (ErrorsNew ''more than one vlan group returned, specify a more narrow filter'')),
      sample_vlan_lookup,
      \<lparr>svc = (), calls = [(Call_IpamVlanGroupsList (vlanGroupRead_params sample_vlan_lookup), None)]\<rparr>)
   \<and> fst (dataSourceNetboxVlanGroupRead (list_answer 1 [sample_VLANGroup]) sample_vlan_lookup w0) = Return None
   \<and> rd_Id (fst (snd (dataSourceNetboxVlanGroupRead (list_answer 1 [sample_VLANGroup]) sample_vlan_lookup w0))) = ''12''
   \<and> rd_attrs (fst (snd (dataSourceNetboxVlanGroupRead (list_answer 1 [sample_VLANGroup]) sample_vlan_lookup w0))) ''max_vid'' = Some (VInt 4094)"
proof -
  let ?w = "\<lparr>svc = (), calls = [(Call_IpamVlanGroupsList (vlanGroupRead_params sample_vlan_lookup), None)]\<rparr>"
  have a: "IpamVlanGroupsList (list_answer n rs) (vlanGroupRead_params sample_vlan_lookup) (svc w0) =
      (Inr \<lparr>vgl_Count = Some n, vgl_Results = rs\<rparr>, ())" for n rs
    by (simp add: list_answer_def double_api_def w0_def)
  have w: "?w = \<lparr>svc = (), calls = calls w0 @ [(Call_IpamVlanGroupsList (vlanGroupRead_params sample_vlan_lookup), None)]\<rparr>"
    by (simp add: w0_def)
  have b: "vgl_Count \<lparr>vgl_Count = Some n, vgl_Results = rs\<rparr> = Some n" for n and rs :: "VLANGroup list"
    by simp
  show ?thesis
    using vlan_group_lookup_needs_one_match [OF a b w, of 0 "[]" sample_VLANGroup]
      vlan_group_lookup_needs_one_match [OF a b w, of 2 "[sample_VLANGroup, sample_VLANGroup]" sample_VLANGroup]
      vlan_group_lookup_needs_one_match [OF a b w, of 1 "[sample_VLANGroup]" sample_VLANGroup]
    by (simp add: FormatInt_numerals sample_VLANGroup_def)
qed

text \<open>
  C9. The lookup never puts \<^verbatim>\<open>scope_id\<close> into the list query: the parameter stays nil, and
  changing the \<^verbatim>\<open>scope_id\<close> of the input (to any value, or to none) changes neither the query,
  nor the returned error, nor the calls made, nor any other stored field.
\<close>

theorem vlan_lookup_ignores_scope_id:
  "vlanGroupRead_params (d\<lparr>rd_attrs := (rd_attrs d)(''scope_id'' := x)\<rparr>) = vlanGroupRead_params d
   \<and> vgp_ScopeID (vlanGroupRead_params d) = None
   \<and> (case dataSourceNetboxVlanGroupRead api d w of
        (r, d', w') \<Rightarrow>
          dataSourceNetboxVlanGroupRead api (d\<lparr>rd_attrs := (rd_attrs d)(''scope_id'' := x)\<rparr>) w =
            (r, d'\<lparr>rd_attrs := (rd_attrs d')(''scope_id'' := x)\<rparr>, w'))"
proof -
  let ?d = "d\<lparr>rd_attrs := (rd_attrs d)(''scope_id'' := x)\<rparr>"
  have g: "Get ?d k = Get d k" if "k \<noteq> ''scope_id''" for k
    using that by (simp add: Get_def split: option.splits)
  have p: "vlanGroupRead_params ?d = vlanGroupRead_params d"
    by (simp add: vlanGroupRead_params_def Let_def g split: prod.splits)
  have n: "vgp_ScopeID (vlanGroupRead_params d) = None"
    by (simp add: vlanGroupRead_params_def Let_def NewIpamVlanGroupsListParams_def split: prod.splits)
  have st: "vlanGroupRead_store result ?d =
      (vlanGroupRead_store result d)\<lparr>rd_attrs := (rd_attrs (vlanGroupRead_store result d))(''scope_id'' := x)\<rparr>"
    for result
    by (simp add: vlanGroupRead_store_def Let_def SetId_def Set_def fun_upd_twist)
  show ?thesis
    unfolding p
    by (simp add: n dataSourceNetboxVlanGroupRead_def Let_def p st
        split: prod.splits sum.splits option.splits list.splits)
qed

theorem vlan_lookup_ignores_scope_id_witness:
  "vlanGroupRead_params (sample_vlan_lookup\<lparr>rd_attrs := (rd_attrs sample_vlan_lookup)(''scope_id'' \<mapsto> VInt 4)\<rparr>) =
     \<lparr>vgp_Limit = Some 2, vgp_Name = None, vgp_Slug = Some ''core'', vgp_ScopeType = None, vgp_ScopeID = None\<rparr>
   \<and> dataSourceNetboxVlanGroupRead double_api
        (sample_vlan_lookup\<lparr>rd_attrs := (rd_attrs sample_vlan_lookup)(''scope_id'' \<mapsto> VInt 4)\<rparr>) w0 =
     (Return None,
      (vlanGroupRead_store sample_VLANGroup sample_vlan_lookup)
        \<lparr>rd_attrs := (rd_attrs (vlanGroupRead_store sample_VLANGroup sample_vlan_lookup))(''scope_id'' \<mapsto> VInt 4)\<rparr>,
      \<lparr>svc = (), calls = [(Call_IpamVlanGroupsList (vlanGroupRead_params sample_vlan_lookup), None)]\<rparr>)"
  using vlan_lookup_ignores_scope_id [of sample_vlan_lookup "Some (VInt 4)" double_api w0]
  by (simp add: sample_vlan_read sample_vlan_params)

section \<open>Propagation of service errors\<close>












section \<open>What Create does after the create call\<close>

lemma dt_create_then_read:
  assumes "deviceTypeCreate_data api d = Some data0"
      and "resolve_tags api (Get d tagsKey) w = (tags, w1)"
      and "data = data0\<lparr>wdt_Tags := tags\<rparr>"
      and "DcimDeviceTypesCreate api data (svc w1) = (Inr res, s2)"
  shows "resourceNetboxDeviceTypeCreate api d w =
           resourceNetboxDeviceTypeRead api (d\<lparr>rd_Id := FormatInt (dt_ID res)\<rparr>)
             \<lparr>svc = s2, calls = calls w1 @ [(Call_DcimDeviceTypesCreate data, None)]\<rparr>
       \<and> map fst (new_calls w1 (snd (snd (resourceNetboxDeviceTypeCreate api d w)))) =
           [Call_DcimDeviceTypesCreate data, Call_DcimDeviceTypesRead (dt_ID res)]"
  using assms
  by (simp add: resourceNetboxDeviceTypeCreate_def resourceNetboxDeviceTypeRead_def invoke_def
      SetId_def Let_def ParseInt_FormatInt new_calls_def
      split: prod.splits sum.splits api_error.splits)

lemma ir_create_then_update:
  assumes "ipRangeCreate_data api d = Some data0"
      and "resolve_tags api (Get d tagsKey) w = (tags, w1)"
      and "data = data0\<lparr>wir_Tags := tags\<rparr>"
      and "IpamIPRangesCreate api data (svc w1) = (Inr res, s2)"
      and "d2 = d\<lparr>rd_Id := FormatInt (ir_ID res)\<rparr>"
      and "w2 = \<lparr>svc = s2, calls = calls w1 @ [(Call_IpamIPRangesCreate data, None)]\<rparr>"
  shows "resourceNetboxIPRangeCreate api d w = resourceNetboxIPRangeUpdate api d2 w2
       \<and> (ipRangeUpdate_data api d2 = Some u0 \<and>
          resolve_tags api (Get d2 tagsKey) w2 = (tags2, w3) \<and>
          IpamIPRangesUpdate api (ir_ID res) (u0\<lparr>wir_Tags := tags2\<rparr>) (svc w3) = (Inr x, s4) \<longrightarrow>
            map fst (new_calls w1 (snd (snd (resourceNetboxIPRangeCreate api d w)))) =
              [Call_IpamIPRangesCreate data, Call_getNestedTagList (Get d2 tagsKey),
               Call_IpamIPRangesUpdate (ir_ID res) (u0\<lparr>wir_Tags := tags2\<rparr>),
               Call_IpamIPRangesRead (ir_ID res)])"
proof -
  have eq: "resourceNetboxIPRangeCreate api d w = resourceNetboxIPRangeUpdate api d2 w2"
    using assms
    by (simp add: resourceNetboxIPRangeCreate_def invoke_def SetId_def Let_def)
  show ?thesis
    unfolding eq using assms(5,6)
    by (auto simp: resourceNetboxIPRangeUpdate_def resourceNetboxIPRangeRead_def invoke_def
        resolve_tags_def Let_def ParseInt_FormatInt new_calls_def
        split: prod.splits sum.splits api_error.splits)
qed

text \<open>
  C2, as the code has it. Create of a device type, once the create call has succeeded, stores the
  identifier of the answer (in decimal) and runs Read: the get call for that identifier directly
  follows the create call. Create of an IP range stores the identifier in the same way and runs
  Update: when the payload is built and the update call succeeds, the calls after the create
  call are the tag resolution, the update call and then the get call of Read, all for the
  identifier stored.
\<close>

theorem create_stores_id_then_syncs:
  "(deviceTypeCreate_data api d = Some data0 \<and>
    resolve_tags api (Get d tagsKey) w = (tags, w1) \<and>
    data = data0\<lparr>wdt_Tags := tags\<rparr> \<and>
    DcimDeviceTypesCreate api data (svc w1) = (Inr res, s2) \<longrightarrow>
      resourceNetboxDeviceTypeCreate api d w =
        resourceNetboxDeviceTypeRead api (d\<lparr>rd_Id := FormatInt (dt_ID res)\<rparr>)
          \<lparr>svc = s2, calls = calls w1 @ [(Call_DcimDeviceTypesCreate data, None)]\<rparr>
      \<and> map fst (new_calls w1 (snd (snd (resourceNetboxDeviceTypeCreate api d w)))) =
          [Call_DcimDeviceTypesCreate data, Call_DcimDeviceTypesRead (dt_ID res)])
   \<and> (ipRangeCreate_data api e = Some rdata0 \<and>
      resolve_tags api (Get e tagsKey) v = (rtags, v1) \<and>
      rdata = rdata0\<lparr>wir_Tags := rtags\<rparr> \<and>
      IpamIPRangesCreate api rdata (svc v1) = (Inr rres, t2) \<and>
      e2 = e\<lparr>rd_Id := FormatInt (ir_ID rres)\<rparr> \<and>
      v2 = \<lparr>svc = t2, calls = calls v1 @ [(Call_IpamIPRangesCreate rdata, None)]\<rparr> \<longrightarrow>
        resourceNetboxIPRangeCreate api e v = resourceNetboxIPRangeUpdate api e2 v2
        \<and> (ipRangeUpdate_data api e2 = Some u0 \<and>
           resolve_tags api (Get e2 tagsKey) v2 = (tags2, v3) \<and>
           IpamIPRangesUpdate api (ir_ID rres) (u0\<lparr>wir_Tags := tags2\<rparr>) (svc v3) = (Inr x, t4) \<longrightarrow>
             map fst (new_calls v1 (snd (snd (resourceNetboxIPRangeCreate api e v)))) =
               [Call_IpamIPRangesCreate rdata, Call_getNestedTagList (Get e2 tagsKey),
                Call_IpamIPRangesUpdate (ir_ID rres) (u0\<lparr>wir_Tags := tags2\<rparr>),
                Call_IpamIPRangesRead (ir_ID rres)]))"
  using dt_create_then_read [of api d data0 w tags w1 data res s2]
    ir_create_then_update [of api e rdata0 v rtags v1 rdata rres t2 e2 v2 u0 tags2 v3 x t4]
  by blast


theorem create_stores_id_then_syncs_witness:
  "resourceNetboxDeviceTypeCreate double_api sample_device_type w0 =
     resourceNetboxDeviceTypeRead double_api (sample_device_type\<lparr>rd_Id := ''7''\<rparr>)
       \<lparr>svc = (), calls = [(Call_getNestedTagList (VSet []), None),
                           (Call_DcimDeviceTypesCreate sample_WritableDeviceType, None)]\<rparr>
   \<and> map fst (new_calls \<lparr>svc = (), calls = [(Call_getNestedTagList (VSet []), None)]\<rparr>
        (snd (snd (resourceNetboxDeviceTypeCreate double_api sample_device_type w0)))) =
     [Call_DcimDeviceTypesCreate sample_WritableDeviceType, Call_DcimDeviceTypesRead 7]
   \<and> resourceNetboxIPRangeCreate double_api sample_ip_range w0 =
       resourceNetboxIPRangeUpdate double_api (sample_ip_range\<lparr>rd_Id := ''5''\<rparr>)
         \<lparr>svc = (), calls = [(Call_getNestedTagList (VSet []), None),
                             (Call_IpamIPRangesCreate sample_WritableIPRange, None)]\<rparr>
   \<and> map fst (new_calls \<lparr>svc = (), calls = [(Call_getNestedTagList (VSet []), None)]\<rparr>
        (snd (snd (resourceNetboxIPRangeCreate double_api sample_ip_range w0)))) =
     [Call_IpamIPRangesCreate sample_WritableIPRange, Call_getNestedTagList (VSet []),
      Call_IpamIPRangesUpdate 5 sample_WritableIPRange, Call_IpamIPRangesRead 5]"
proof -
  let ?w1 = "\<lparr>svc = (), calls = [(Call_getNestedTagList (VSet []), None)]\<rparr> :: unit world"
  let ?v2 = "\<lparr>svc = (), calls = [(Call_getNestedTagList (VSet []), None),
                             (Call_IpamIPRangesCreate sample_WritableIPRange, None)]\<rparr> :: unit world"
  let ?v3 = "\<lparr>svc = (), calls = [(Call_getNestedTagList (VSet []), None),
                             (Call_IpamIPRangesCreate sample_WritableIPRange, None),
                             (Call_getNestedTagList (VSet []), None)]\<rparr> :: unit world"
  have dc: "deviceTypeCreate_data double_api sample_device_type = Some sample_WritableDeviceType"
    using sample_device_type_data(1) [OF double_api_sel(12), where i = "[]"]
    by (simp add: sample_device_type_self)
  have dg: "Get sample_device_type tagsKey = VSet []"
    using sample_device_type_data(3) [OF double_api_sel(12), where i = "[]"]
    by (simp add: sample_device_type_self)
  have rc: "ipRangeCreate_data double_api sample_ip_range = Some sample_WritableIPRange"
    using sample_ip_range_data(1) [OF double_api_sel(13), where i = "[]"]
    by (simp add: sample_ip_range_self sample_WritableIPRange_def)
  have rg: "Get sample_ip_range tagsKey = VSet []"
    using sample_ip_range_data(3) [OF double_api_sel(13), where i = "[]"]
    by (simp add: sample_ip_range_self)
  have ru: "ipRangeUpdate_data double_api (sample_ip_range\<lparr>rd_Id := ''5''\<rparr>) = Some sample_WritableIPRange"
    using sample_ip_range_data(2) [OF double_api_sel(13), where i = "''5''"]
    by (simp add: sample_WritableIPRange_def)
  have rg2: "Get (sample_ip_range\<lparr>rd_Id := ''5''\<rparr>) tagsKey = VSet []"
    using sample_ip_range_data(3) [OF double_api_sel(13), where i = "''5''"] by simp
  have t1: "resolve_tags double_api (VSet []) w0 = ([], ?w1)"
    and t2: "resolve_tags double_api (VSet []) ?v2 = ([], ?v3)"
    by (simp_all add: resolve_tags_def double_api_sel w0_def)
  have dr: "sample_WritableDeviceType\<lparr>wdt_Tags := []\<rparr> = sample_WritableDeviceType"
    by (simp add: sample_WritableDeviceType_def)
  have rr: "sample_WritableIPRange\<lparr>wir_Tags := []\<rparr> = sample_WritableIPRange"
    by (simp add: sample_WritableIPRange_def empty_WritableIPRange_def)
  have ids: "dt_ID sample_DeviceType = 7" "ir_ID sample_IPRange = 5"
    by (simp_all add: sample_DeviceType_def sample_IPRange_def)
  show ?thesis
    using create_stores_id_then_syncs [where api = double_api and d = sample_device_type
        and ?data0.0 = sample_WritableDeviceType and w = w0 and tags = "[]" and ?w1.0 = ?w1
        and data = sample_WritableDeviceType and res = sample_DeviceType and ?s2.0 = "()"
        and e = sample_ip_range and ?rdata0.0 = sample_WritableIPRange and v = w0 and rtags = "[]"
        and ?v1.0 = ?w1 and rdata = sample_WritableIPRange and rres = sample_IPRange and ?t2.0 = "()"
        and ?e2.0 = "sample_ip_range\<lparr>rd_Id := ''5''\<rparr>" and ?v2.0 = ?v2
        and ?u0.0 = sample_WritableIPRange and ?tags2.0 = "[]" and ?v3.0 = ?v3
        and x = sample_IPRange and ?t4.0 = "()"]
    by (auto simp: dc dg rc rg ru rg2 t1 t2 dr rr ids double_api_sel FormatInt_numerals)
qed

text \<open>
  C2 as stated fails for the IP range: on the sample record its Create succeeds with an update
  call between the create call and the get call.
\<close>

theorem create_then_read_counterexample:
  "fst (resourceNetboxIPRangeCreate double_api sample_ip_range w0) = Return None
   \<and> map fst (calls (snd (snd (resourceNetboxIPRangeCreate double_api sample_ip_range w0)))) =
     [Call_getNestedTagList (VSet []), Call_IpamIPRangesCreate sample_WritableIPRange,
      Call_getNestedTagList (VSet []), Call_IpamIPRangesUpdate 5 sample_WritableIPRange,
      Call_IpamIPRangesRead 5]"
  by (simp add: sample_ip_range_create_run)

section \<open>The reference fields of an IP range update\<close>

lemma ip_range_update_call:
  assumes "ipRangeUpdate_data api d = Some data"
      and "resolve_tags api (Get d tagsKey) w = (tags, w1)"
  shows "map fst (take 1 (new_calls w1 (snd (snd (resourceNetboxIPRangeUpdate api d w))))) =
           [Call_IpamIPRangesUpdate (ParseInt (rd_Id d)) (data\<lparr>wir_Tags := tags\<rparr>)]"
  using assms
  by (auto simp: resourceNetboxIPRangeUpdate_def resourceNetboxIPRangeRead_def invoke_def
      Let_def new_calls_def split: prod.splits sum.splits api_error.splits)

lemma conforms_sample_ip_range:
  "conforms (sample_ip_range\<lparr>rd_attrs := (rd_attrs sample_ip_range)(''tenant_id'' \<mapsto> VInt i)\<rparr>)"
  "conforms sample_ip_range"
  by (simp_all add: conforms_def sample_ip_range_def resourceNetboxIPRange_schema_def field_def
      tagsKey_def tagsSchema_def)

text \<open>
  C7, as the code has it. For a conforming IP range record the update payload is built, and it is
  the payload of the update call. A reference field (\<^verbatim>\<open>tenant_id\<close>, \<^verbatim>\<open>role_id\<close>,
  \<^verbatim>\<open>vrf_id\<close>) that is absent from the record is left out of the payload (its pointer stays
  nil); so is one that is set to 0; any other value is sent as it is. The payload never carries
  a zero or a null for these fields.
\<close>

theorem ip_range_update_reference_fields:
  assumes "rd_schema d = resourceNetboxIPRange_schema" and "conforms d"
  shows "\<exists>data. ipRangeUpdate_data api d = Some data
     \<and> (rd_attrs d ''tenant_id'' = None \<or> rd_attrs d ''tenant_id'' = Some (VInt 0) \<longrightarrow> wir_Tenant data = None)
     \<and> (\<forall>i. i \<noteq> 0 \<and> rd_attrs d ''tenant_id'' = Some (VInt i) \<longrightarrow> wir_Tenant data = Some (to_int64 i))
     \<and> (rd_attrs d ''role_id'' = None \<or> rd_attrs d ''role_id'' = Some (VInt 0) \<longrightarrow> wir_Role data = None)
     \<and> (\<forall>i. i \<noteq> 0 \<and> rd_attrs d ''role_id'' = Some (VInt i) \<longrightarrow> wir_Role data = Some (to_int64 i))
     \<and> (rd_attrs d ''vrf_id'' = None \<or> rd_attrs d ''vrf_id'' = Some (VInt 0) \<longrightarrow> wir_Vrf data = None)
     \<and> (\<forall>i. i \<noteq> 0 \<and> rd_attrs d ''vrf_id'' = Some (VInt i) \<longrightarrow> wir_Vrf data = Some (to_int64 i))
     \<and> (\<forall>tags w1. resolve_tags api (Get d tagsKey) w = (tags, w1) \<longrightarrow>
          map fst (take 1 (new_calls w1 (snd (snd (resourceNetboxIPRangeUpdate api d w))))) =
            [Call_IpamIPRangesUpdate (ParseInt (rd_Id d)) (data\<lparr>wir_Tags := tags\<rparr>)])"
proof -
  obtain a b c where g: "Get d ''start_address'' = VString a" "Get d ''end_address'' = VString b"
      "Get d ''status'' = VString c"
    using ip_range_Get_typed(1-3) [OF assms] by blast
  obtain t r v where h: "Get d ''tenant_id'' = VInt t" "Get d ''role_id'' = VInt r" "Get d ''vrf_id'' = VInt v"
    using ip_range_Get_typed(4-6) [OF assms] by blast
  have ok: "GetOk d ''tenant_id'' = (VInt t, t \<noteq> 0)" "GetOk d ''role_id'' = (VInt r, r \<noteq> 0)"
      "GetOk d ''vrf_id'' = (VInt v, v \<noteq> 0)"
    using h by (simp_all add: GetOk_def assms(1) ip_range_schema_lookup field_def)
  have at: "rd_attrs d ''tenant_id'' = None \<Longrightarrow> t = 0" "\<And>i. rd_attrs d ''tenant_id'' = Some (VInt i) \<Longrightarrow> t = i"
    and ar: "rd_attrs d ''role_id'' = None \<Longrightarrow> r = 0" "\<And>i. rd_attrs d ''role_id'' = Some (VInt i) \<Longrightarrow> r = i"
    and av: "rd_attrs d ''vrf_id'' = None \<Longrightarrow> v = 0" "\<And>i. rd_attrs d ''vrf_id'' = Some (VInt i) \<Longrightarrow> v = i"
    using h by (simp_all add: Get_def assms(1) ip_range_schema_lookup field_def)
  let ?data = "empty_WritableIPRange\<lparr>wir_StartAddress := Some a, wir_EndAddress := Some b,
      wir_Status := c, wir_Description := getOptionalStr api d ''description'' True,
      wir_Comments := getOptionalStr api d ''comments'' True,
      wir_Vrf := (if v \<noteq> 0 then Some (to_int64 v) else None),
      wir_Tenant := (if t \<noteq> 0 then Some (to_int64 t) else None),
      wir_Role := (if r \<noteq> 0 then Some (to_int64 r) else None)\<rparr>"
  have d: "ipRangeUpdate_data api d = Some ?data"
    by (simp add: ipRangeUpdate_data_def g ok int64ToPtr_def strToPtr_def Let_def
        empty_WritableIPRange_def)
  have f: "wir_Tenant ?data = (if t \<noteq> 0 then Some (to_int64 t) else None)"
      "wir_Role ?data = (if r \<noteq> 0 then Some (to_int64 r) else None)"
      "wir_Vrf ?data = (if v \<noteq> 0 then Some (to_int64 v) else None)"
    by simp_all
  have u: "\<forall>tags w1. resolve_tags api (Get d tagsKey) w = (tags, w1) \<longrightarrow>
          map fst (take 1 (new_calls w1 (snd (snd (resourceNetboxIPRangeUpdate api d w))))) =
            [Call_IpamIPRangesUpdate (ParseInt (rd_Id d)) (?data\<lparr>wir_Tags := tags\<rparr>)]"
    using ip_range_update_call [OF d] by blast
  show ?thesis
    using d f u at ar av by (intro exI [of _ ?data]) auto
qed

theorem ip_range_update_reference_fields_witness:
  "map_option wir_Tenant (ipRangeUpdate_data double_api
      (sample_ip_range\<lparr>rd_attrs := (rd_attrs sample_ip_range)(''tenant_id'' \<mapsto> VInt 42)\<rparr>)) = Some (Some 42)
   \<and> map_option wir_Role (ipRangeUpdate_data double_api
      (sample_ip_range\<lparr>rd_attrs := (rd_attrs sample_ip_range)(''tenant_id'' \<mapsto> VInt 42)\<rparr>)) = Some None"
proof -
  let ?d = "sample_ip_range\<lparr>rd_attrs := (rd_attrs sample_ip_range)(''tenant_id'' \<mapsto> VInt 42)\<rparr>"
  have s: "rd_schema ?d = resourceNetboxIPRange_schema"
    by (simp add: sample_ip_range_def)
  have a: "rd_attrs ?d ''tenant_id'' = Some (VInt 42)" "rd_attrs ?d ''role_id'' = None"
    by (simp_all add: sample_ip_range_def)
  show ?thesis
    using ip_range_update_reference_fields [OF s conforms_sample_ip_range(1), of double_api w0] a
    by (auto simp: to_int64_def)
qed

text \<open>
  C7 as stated fails in its last part: a record with \<^verbatim>\<open>tenant_id\<close> unset and the same record
  with \<^verbatim>\<open>tenant_id\<close> set to 0 give the same update payload, without the field.
\<close>

theorem ip_range_unset_and_zero_counterexample:
  "rd_attrs sample_ip_range ''tenant_id'' = None
   \<and> ipRangeUpdate_data double_api
        (sample_ip_range\<lparr>rd_attrs := (rd_attrs sample_ip_range)(''tenant_id'' \<mapsto> VInt 0)\<rparr>) =
      ipRangeUpdate_data double_api sample_ip_range
   \<and> map_option wir_Tenant (ipRangeUpdate_data double_api sample_ip_range) = Some None"
  by (simp add: ipRangeUpdate_data_def sample_ip_range_def resourceNetboxIPRange_schema_def Get_def
      GetOk_def field_def tagsKey_def strToPtr_def double_api_sel empty_WritableIPRange_def)

section \<open>The payloads of a device type\<close>

lemma device_type_schema_lookup:
  "map_of resourceNetboxDeviceType_schema ''model'' = Some ((field TypeString)\<lparr>Required := True\<rparr>)"
  "map_of resourceNetboxDeviceType_schema ''slug'' =
     Some ((field TypeString)\<lparr>Optional := True, Computed := True, ValidateFunc := Some (StringLenBetween 1 100)\<rparr>)"
  "map_of resourceNetboxDeviceType_schema ''manufacturer_id'' = Some ((field TypeInt)\<lparr>Required := True\<rparr>)"
  "map_of resourceNetboxDeviceType_schema ''part_number'' = Some ((field TypeString)\<lparr>Optional := True\<rparr>)"
  "map_of resourceNetboxDeviceType_schema ''u_height'' =
     Some ((field TypeFloat)\<lparr>Optional := True, Default := Some (VFloat 1)\<rparr>)"
  "map_of resourceNetboxDeviceType_schema ''is_full_depth'' = Some ((field TypeBool)\<lparr>Optional := True\<rparr>)"
  by (simp_all add: resourceNetboxDeviceType_schema_def)

lemma device_type_Get_typed:
  assumes "rd_schema d = resourceNetboxDeviceType_schema" and "conforms d"
  shows "\<exists>a. Get d ''model'' = VString a"
    and "\<exists>a. Get d ''slug'' = VString a"
    and "\<exists>i. Get d ''manufacturer_id'' = VInt i"
    and "\<exists>a. Get d ''part_number'' = VString a"
    and "\<exists>x. Get d ''u_height'' = VFloat x"
    and "\<exists>b. Get d ''is_full_depth'' = VBool b"
  using conforms_Get [OF assms(2), of "''model''"] conforms_Get [OF assms(2), of "''slug''"]
    conforms_Get [OF assms(2), of "''manufacturer_id''"] conforms_Get [OF assms(2), of "''part_number''"]
    conforms_Get [OF assms(2), of "''u_height''"] conforms_Get [OF assms(2), of "''is_full_depth''"]
  by (simp_all add: assms(1) device_type_schema_lookup field_def has_type_cases)

lemma conforms_sample_device_type:
  "conforms (sample_device_type\<lparr>rd_attrs := (rd_attrs sample_device_type)(''u_height'' \<mapsto> VFloat x)\<rparr>)"
  "conforms sample_device_type"
  by (simp_all add: conforms_def sample_device_type_def resourceNetboxDeviceType_schema_def field_def
      tagsKey_def tagsSchema_def)

text \<open>
  C10, as the code has it. For a conforming device type record both payloads are built. The
  Update payload always carries \<^verbatim>\<open>u_height\<close>: the value of the record, or the default 1.0 when
  the record leaves it unset. In both payloads \<^verbatim>\<open>part_number\<close> and \<^verbatim>\<open>is_full_depth\<close> stay
  empty when unset. Whenever that height is not 0, and so whenever it is unset, the Create
  payload carries it too, and the two payloads are the same.
\<close>

theorem device_type_payload_shapes:
  assumes "rd_schema d = resourceNetboxDeviceType_schema" and "conforms d"
  shows "\<exists>c u h. deviceTypeCreate_data api d = Some c \<and> deviceTypeUpdate_data api d = Some u
     \<and> Get d ''u_height'' = VFloat h
     \<and> (rd_attrs d ''u_height'' = None \<longrightarrow> h = 1)
     \<and> (\<forall>x. rd_attrs d ''u_height'' = Some (VFloat x) \<longrightarrow> h = x)
     \<and> wdt_UHeight u = Some h
     \<and> (rd_attrs d ''part_number'' = None \<longrightarrow> wdt_PartNumber u = [] \<and> wdt_PartNumber c = [])
     \<and> (rd_attrs d ''is_full_depth'' = None \<longrightarrow> \<not> wdt_IsFullDepth u \<and> \<not> wdt_IsFullDepth c)
     \<and> (h \<noteq> 0 \<longrightarrow> wdt_UHeight c = Some h \<and> c = u)"
proof -
  obtain m sl mi pn h fd where g: "Get d ''model'' = VString m" "Get d ''slug'' = VString sl"
      "Get d ''manufacturer_id'' = VInt mi" "Get d ''part_number'' = VString pn"
      "Get d ''u_height'' = VFloat h" "Get d ''is_full_depth'' = VBool fd"
    using device_type_Get_typed [OF assms] by blast
  have ok: "GetOk d ''slug'' = (VString sl, sl \<noteq> [])"
      "GetOk d ''manufacturer_id'' = (VInt mi, mi \<noteq> 0)"
      "GetOk d ''part_number'' = (VString pn, pn \<noteq> [])"
      "GetOk d ''u_height'' = (VFloat h, h \<noteq> 0)"
      "GetOk d ''is_full_depth'' = (VBool fd, fd)"
    using g by (simp_all add: GetOk_def assms(1) device_type_schema_lookup field_def)
  have un: "rd_attrs d ''u_height'' = None \<Longrightarrow> h = 1"
      "\<And>x. rd_attrs d ''u_height'' = Some (VFloat x) \<Longrightarrow> h = x"
      "rd_attrs d ''part_number'' = None \<Longrightarrow> pn = []"
      "rd_attrs d ''is_full_depth'' = None \<Longrightarrow> \<not> fd"
    using g by (simp_all add: Get_def assms(1) device_type_schema_lookup field_def)
  let ?u = "\<lparr>wdt_Model = Some m, wdt_Slug = Some (if sl \<noteq> [] then sl else getSlug api m),
      wdt_Manufacturer = (if mi \<noteq> 0 then Some (to_int64 mi) else None),
      wdt_PartNumber = pn, wdt_UHeight = Some h, wdt_IsFullDepth = fd, wdt_Tags = []\<rparr>"
  let ?c = "?u\<lparr>wdt_UHeight := (if h = 0 then None else Some h)\<rparr>"
  have c: "deviceTypeCreate_data api d = Some ?c"
    by (simp add: deviceTypeCreate_data_def g ok int64ToPtr_def strToPtr_def float64ToPtr_def
        Let_def empty_WritableDeviceType_def)
  have u: "deviceTypeUpdate_data api d = Some ?u"
    by (simp add: deviceTypeUpdate_data_def g ok int64ToPtr_def strToPtr_def float64ToPtr_def
        Let_def empty_WritableDeviceType_def)
  show ?thesis
    using c u g(5) un by (intro exI [of _ ?c] exI [of _ ?u] exI [of _ h]) simp
qed

theorem device_type_payload_shapes_witness:
  "map_option wdt_UHeight (deviceTypeUpdate_data double_api
      (sample_device_type\<lparr>rd_attrs := (rd_attrs sample_device_type)(''u_height'' \<mapsto> VFloat 2)\<rparr>)) = Some (Some 2)
   \<and> map_option wdt_UHeight (deviceTypeCreate_data double_api
      (sample_device_type\<lparr>rd_attrs := (rd_attrs sample_device_type)(''u_height'' \<mapsto> VFloat 2)\<rparr>)) = Some (Some 2)
   \<and> map_option wdt_PartNumber (deviceTypeUpdate_data double_api
      (sample_device_type\<lparr>rd_attrs := (rd_attrs sample_device_type)(''u_height'' \<mapsto> VFloat 2)\<rparr>)) = Some []
   \<and> map_option wdt_IsFullDepth (deviceTypeUpdate_data double_api
      (sample_device_type\<lparr>rd_attrs := (rd_attrs sample_device_type)(''u_height'' \<mapsto> VFloat 2)\<rparr>)) = Some False
   \<and> map_option wdt_UHeight (deviceTypeUpdate_data double_api sample_device_type) = Some (Some 1)"
proof -
  let ?d = "sample_device_type\<lparr>rd_attrs := (rd_attrs sample_device_type)(''u_height'' \<mapsto> VFloat 2)\<rparr>"
  have s: "rd_schema ?d = resourceNetboxDeviceType_schema"
      "rd_schema sample_device_type = resourceNetboxDeviceType_schema"
    by (simp_all add: sample_device_type_def)
  have a: "rd_attrs ?d ''u_height'' = Some (VFloat 2)" "rd_attrs ?d ''part_number'' = None"
      "rd_attrs ?d ''is_full_depth'' = None" "rd_attrs sample_device_type ''u_height'' = None"
    by (simp_all add: sample_device_type_def)
  show ?thesis
    using device_type_payload_shapes [OF s(1) conforms_sample_device_type(1), of double_api]
      device_type_payload_shapes [OF s(2) conforms_sample_device_type(2), of double_api] a
    by auto
qed

text \<open>
  C10 as stated fails for Create: with \<^verbatim>\<open>u_height\<close> unset the default applies, \<^verbatim>\<open>GetOk\<close>
  reports the non-zero value 1.0, and the Create payload carries it, as the Update payload does.
\<close>

theorem device_type_create_default_height_counterexample:
  "rd_attrs sample_device_type ''u_height'' = None
   \<and> map_option wdt_UHeight (deviceTypeCreate_data double_api sample_device_type) = Some (Some 1)
   \<and> deviceTypeCreate_data double_api sample_device_type = deviceTypeUpdate_data double_api sample_device_type"
proof -
  have "deviceTypeCreate_data double_api sample_device_type = Some sample_WritableDeviceType"
      "deviceTypeUpdate_data double_api sample_device_type = Some sample_WritableDeviceType"
    using sample_device_type_data(1,2) [OF double_api_sel(12), where i = "[]"]
    by (simp_all add: sample_device_type_self)
  then show ?thesis
    by (simp add: sample_WritableDeviceType_def sample_device_type_def)
qed

section \<open>The status of an IP range\<close>

lemma ip_range_create_call:
  assumes "ipRangeCreate_data api d = Some data"
      and "resolve_tags api (Get d tagsKey) w = (tags, w1)"
  shows "map fst (take 1 (new_calls w1 (snd (snd (resourceNetboxIPRangeCreate api d w))))) =
           [Call_IpamIPRangesCreate (data\<lparr>wir_Tags := tags\<rparr>)]"
  using assms
  by (auto simp: resourceNetboxIPRangeCreate_def resourceNetboxIPRangeUpdate_def
      resourceNetboxIPRangeRead_def invoke_def resolve_tags_def
      Let_def new_calls_def split: prod.splits sum.splits api_error.splits option.splits)

lemma ip_range_default_status:
  assumes "rd_schema d = resourceNetboxIPRange_schema" and "rd_attrs d ''status'' = None"
  shows "Get d ''status'' = VString ''active''"
  by (simp add: Get_def assms ip_range_schema_lookup field_def)

lemma ip_range_create_status:
  assumes "rd_schema d = resourceNetboxIPRange_schema" and "conforms d"
      and "rd_attrs d ''status'' = None"
  shows "\<exists>data. ipRangeCreate_data api d = Some data \<and> wir_Status data = ''active''
     \<and> (\<forall>tags w1. resolve_tags api (Get d tagsKey) w = (tags, w1) \<longrightarrow>
          map fst (take 1 (new_calls w1 (snd (snd (resourceNetboxIPRangeCreate api d w))))) =
            [Call_IpamIPRangesCreate (data\<lparr>wir_Tags := tags\<rparr>)])"
proof -
  obtain a b where g: "Get d ''start_address'' = VString a" "Get d ''end_address'' = VString b"
    using ip_range_Get_typed(1,2) [OF assms(1,2)] by blast
  let ?data = "empty_WritableIPRange\<lparr>wir_StartAddress := Some a, wir_EndAddress := Some b,
      wir_Status := ''active'', wir_Description := getOptionalStr api d ''description'' True\<rparr>"
  have c: "ipRangeCreate_data api d = Some ?data"
    by (simp add: ipRangeCreate_data_def g ip_range_default_status [OF assms(1,3)] strToPtr_def)
  show ?thesis
    using c ip_range_create_call [OF c, of w] by (intro exI [of _ ?data]) simp
qed

lemma ip_range_read_status:
  assumes "rd_schema d = resourceNetboxIPRange_schema" and "rd_attrs d ''status'' = None"
      and "IpamIPRangesRead api (ParseInt (rd_Id d)) (svc w) = (Inr payload, s)"
      and "ir_Status_Value payload = None \<or> ir_Status_Value payload = Some ''active''"
  shows "fst (resourceNetboxIPRangeRead api d w) = Return None
     \<and> Get (fst (snd (resourceNetboxIPRangeRead api d w))) ''status'' = VString ''active''"
  using assms(2,3,4)
  by (auto simp: resourceNetboxIPRangeRead_def ipRangeRead_store_def invoke_def Let_def Set_def
      Get_def assms(1) ip_range_schema_lookup field_def tagsKey_def split: option.splits)

lemma ip_range_status_rejected:
  assumes "rd_schema d = resourceNetboxIPRange_schema" and "rd_attrs d ''status'' = Some v"
      and "v \<notin> {VString ''active'', VString ''reserved'', VString ''deprecated''}"
  shows "\<not> Validate d \<and> ApplyCreate resourceNetboxIPRangeCreate api d w = (Rejected, d, w)"
proof -
  have "\<not> validate_field (rd_attrs d) (''status'',
      (field TypeString)\<lparr>Optional := True, Default := Some (VString ''active''),
        ValidateFunc := Some (StringInSlice resourceNetboxIPRangeStatusOptions)\<rparr>)"
    using assms(2,3)
    by (cases v) (auto simp: validate_field_def field_def resourceNetboxIPRangeStatusOptions_def)
  then have "\<not> Validate d"
    by (simp add: Validate_def assms(1) resourceNetboxIPRange_schema_def)
  then show ?thesis
    by (simp add: ApplyCreate_def)
qed

text \<open>
  C5. For an IP range record that leaves \<^verbatim>\<open>status\<close> unset, the payload of the create call
  carries the status "active", and a Read that the service answers with that status (or with
  none) leaves the record reporting "active". A status that is set must be "active",
  "reserved" or "deprecated": any other value fails the validation of the schema, and the
  configuration is rejected before Create runs, with no call made.
\<close>

theorem ip_range_status_default_and_enum:
  assumes "rd_schema d = resourceNetboxIPRange_schema"
  shows "(conforms d \<and> rd_attrs d ''status'' = None \<longrightarrow>
            (\<exists>data. ipRangeCreate_data api d = Some data \<and> wir_Status data = ''active''
              \<and> (\<forall>tags w1. resolve_tags api (Get d tagsKey) w = (tags, w1) \<longrightarrow>
                   map fst (take 1 (new_calls w1 (snd (snd (resourceNetboxIPRangeCreate api d w))))) =
                     [Call_IpamIPRangesCreate (data\<lparr>wir_Tags := tags\<rparr>)])))
     \<and> (rd_attrs d ''status'' = None \<and>
        IpamIPRangesRead api (ParseInt (rd_Id d)) (svc w) = (Inr payload, s) \<and>
        (ir_Status_Value payload = None \<or> ir_Status_Value payload = Some ''active'') \<longrightarrow>
          fst (resourceNetboxIPRangeRead api d w) = Return None
          \<and> Get (fst (snd (resourceNetboxIPRangeRead api d w))) ''status'' = VString ''active'')
     \<and> (\<forall>v. rd_attrs d ''status'' = Some v \<and>
            v \<notin> {VString ''active'', VString ''reserved'', VString ''deprecated''} \<longrightarrow>
              \<not> Validate d \<and> ApplyCreate resourceNetboxIPRangeCreate api d w = (Rejected, d, w))
     \<and> (\<forall>x. run_validator (StringInSlice resourceNetboxIPRangeStatusOptions) (VString x) \<longleftrightarrow>
            x = ''active'' \<or> x = ''reserved'' \<or> x = ''deprecated'')"
proof -
  have "\<forall>x. run_validator (StringInSlice resourceNetboxIPRangeStatusOptions) (VString x) \<longleftrightarrow>
            x = ''active'' \<or> x = ''reserved'' \<or> x = ''deprecated''"
    by (auto simp: resourceNetboxIPRangeStatusOptions_def)
  then show ?thesis
    using ip_range_create_status [OF assms, of api w] ip_range_read_status [OF assms, of api w payload s]
      ip_range_status_rejected [OF assms, of _ api w]
    by blast
qed


theorem ip_range_status_default_and_enum_witness:
  "map_option wir_Status (ipRangeCreate_data double_api sample_ip_range) = Some ''active''
   \<and> Get (fst (snd (resourceNetboxIPRangeRead double_api (sample_ip_range\<lparr>rd_Id := ''5''\<rparr>) w0))) ''status'' =
       VString ''active''
   \<and> ApplyCreate resourceNetboxIPRangeCreate double_api
        (sample_ip_range\<lparr>rd_attrs := (rd_attrs sample_ip_range)(''status'' \<mapsto> VString ''retired'')\<rparr>) w0 =
       (Rejected, sample_ip_range\<lparr>rd_attrs := (rd_attrs sample_ip_range)(''status'' \<mapsto> VString ''retired'')\<rparr>, w0)"
proof -
  let ?d5 = "sample_ip_range\<lparr>rd_Id := ''5''\<rparr>"
  let ?bad = "sample_ip_range\<lparr>rd_attrs := (rd_attrs sample_ip_range)(''status'' \<mapsto> VString ''retired'')\<rparr>"
  have s: "rd_schema sample_ip_range = resourceNetboxIPRange_schema"
      "rd_schema ?d5 = resourceNetboxIPRange_schema" "rd_schema ?bad = resourceNetboxIPRange_schema"
    by (simp_all add: sample_ip_range_def)
  have a: "rd_attrs sample_ip_range ''status'' = None" "rd_attrs ?d5 ''status'' = None"
      "rd_attrs ?bad ''status'' = Some (VString ''retired'')"
    by (simp_all add: sample_ip_range_def)
  have r: "IpamIPRangesRead double_api (ParseInt (rd_Id ?d5)) (svc w0) = (Inr sample_IPRange, ())"
    by (simp add: double_api_sel)
  have p: "ir_Status_Value sample_IPRange = Some ''active''"
    by (simp add: sample_IPRange_def)
  have 1: "map_option wir_Status (ipRangeCreate_data double_api sample_ip_range) = Some ''active''"
    using ip_range_status_default_and_enum [OF s(1), of double_api w0 sample_IPRange "()"] a(1)
      conforms_sample_ip_range(2)
    by fastforce
  have 2: "Get (fst (snd (resourceNetboxIPRangeRead double_api ?d5 w0))) ''status'' = VString ''active''"
    using ip_range_status_default_and_enum [OF s(2), of double_api w0 sample_IPRange "()"] a(2) r p
    by blast
  have 3: "ApplyCreate resourceNetboxIPRangeCreate double_api ?bad w0 = (Rejected, ?bad, w0)"
    using ip_range_status_default_and_enum [OF s(3), of double_api w0 sample_IPRange "()"] a(3)
    by fastforce
  show ?thesis
    using 1 2 3 by blast
qed

section \<open>Trimming white space\<close>

text \<open>
  No encoding of a white space rune is a prefix or a suffix of another, each starts with a byte
  that is not a continuation byte, and continues with continuation bytes only.
\<close>

lemma space_runes_nonempty: "e \<in> set space_runes \<Longrightarrow> e \<noteq> []"
  by (auto simp: space_runes_def)

lemma space_runes_bytes_all:
  "list_all (\<lambda>e. \<not> continuation_byte (hd e) \<and> list_all continuation_byte (tl e)) space_runes"
  by code_simp

lemma space_runes_prefix_free_all:
  "list_all (\<lambda>e. list_all (\<lambda>e'. prefix e e' \<longrightarrow> e = e') space_runes) space_runes"
  by code_simp

lemma space_runes_suffix_free_all:
  "list_all (\<lambda>e. list_all (\<lambda>e'. suffix e e' \<longrightarrow> e = e') space_runes) space_runes"
  by code_simp

lemma space_runes_bytes:
  "e \<in> set space_runes \<Longrightarrow> \<not> continuation_byte (hd e) \<and> (\<forall>c \<in> set (tl e). continuation_byte c)"
  using space_runes_bytes_all by (simp add: list_all_iff)

lemma space_runes_prefix_free:
  "e \<in> set space_runes \<Longrightarrow> e' \<in> set space_runes \<Longrightarrow> prefix e e' \<Longrightarrow> e = e'"
  using space_runes_prefix_free_all by (simp add: list_all_iff)

lemma space_runes_suffix_free:
  "e \<in> set space_runes \<Longrightarrow> e' \<in> set space_runes \<Longrightarrow> suffix e e' \<Longrightarrow> e = e'"
  using space_runes_suffix_free_all by (simp add: list_all_iff)

lemma leading_space_Some_iff:
  "leading_space s = Some e \<longleftrightarrow> e \<in> set space_runes \<and> prefix e s"
proof
  assume "leading_space s = Some e"
  then show "e \<in> set space_runes \<and> prefix e s"
    by (auto simp: leading_space_def find_Some_iff)
next
  assume a: "e \<in> set space_runes \<and> prefix e s"
  then have "leading_space s \<noteq> None"
    by (auto simp: leading_space_def find_None_iff)
  then obtain e' where e': "leading_space s = Some e'" by auto
  then have "e' \<in> set space_runes" "prefix e' s"
    by (auto simp: leading_space_def find_Some_iff)
  then have "prefix e e' \<or> prefix e' e"
    using a prefix_same_cases by blast
  then have "e' = e"
    using a \<open>e' \<in> set space_runes\<close> space_runes_prefix_free by blast
  then show "leading_space s = Some e" using e' by simp
qed

lemma leading_space_None_iff:
  "leading_space s = None \<longleftrightarrow> (\<forall>e \<in> set space_runes. \<not> prefix e s)"
  by (auto simp: leading_space_def find_None_iff)

lemma trailing_space_Some_iff:
  "trailing_space s = Some e \<longleftrightarrow> e \<in> set space_runes \<and> suffix e s"
proof
  assume "trailing_space s = Some e"
  then show "e \<in> set space_runes \<and> suffix e s"
    by (auto simp: trailing_space_def find_Some_iff)
next
  assume a: "e \<in> set space_runes \<and> suffix e s"
  then have "trailing_space s \<noteq> None"
    by (auto simp: trailing_space_def find_None_iff)
  then obtain e' where e': "trailing_space s = Some e'" by auto
  then have "e' \<in> set space_runes" "suffix e' s"
    by (auto simp: trailing_space_def find_Some_iff)
  then have "suffix e e' \<or> suffix e' e"
    using a suffix_same_cases by blast
  then have "e' = e"
    using a \<open>e' \<in> set space_runes\<close> space_runes_suffix_free by blast
  then show "trailing_space s = Some e" using e' by simp
qed

lemma trailing_space_None_iff:
  "trailing_space s = None \<longleftrightarrow> (\<forall>e \<in> set space_runes. \<not> suffix e s)"
  by (auto simp: trailing_space_def find_None_iff)

lemma TrimLeft_rune: "e \<in> set space_runes \<Longrightarrow> TrimLeft (e @ x) = TrimLeft x"
proof -
  assume "e \<in> set space_runes"
  then have "leading_space (e @ x) = Some e"
    by (simp add: leading_space_Some_iff)
  then show ?thesis
    by (subst TrimLeft.simps) simp
qed

lemma TrimRight_rune: "e \<in> set space_runes \<Longrightarrow> TrimRight (x @ e) = TrimRight x"
proof -
  assume "e \<in> set space_runes"
  then have "trailing_space (x @ e) = Some e"
    by (simp add: trailing_space_Some_iff suffix_def)
  then show ?thesis
    by (subst TrimRight.simps) simp
qed

lemma TrimLeft_runes: "set es \<subseteq> set space_runes \<Longrightarrow> TrimLeft (concat es @ x) = TrimLeft x"
  by (induction es) (simp_all add: TrimLeft_rune)

lemma TrimRight_runes: "set es \<subseteq> set space_runes \<Longrightarrow> TrimRight (x @ concat es) = TrimRight x"
proof (induction es rule: rev_induct)
  case Nil
  then show ?case by simp
next
  case (snoc e es)
  then have "TrimRight ((x @ concat es) @ e) = TrimRight (x @ concat es)"
    by (intro TrimRight_rune) simp
  then show ?case using snoc by simp
qed

lemma TrimLeft_Nil: "TrimLeft [] = []"
  by (subst TrimLeft.simps) (simp add: leading_space_def space_runes_def)

lemma TrimRight_Nil: "TrimRight [] = []"
  by (subst TrimRight.simps) (simp add: trailing_space_def space_runes_def)

lemma blank_iff: "blank s \<longleftrightarrow> (\<exists>es. set es \<subseteq> set space_runes \<and> s = concat es)"
proof
  assume "blank s"
  then have "TrimLeft s = []" by (simp add: blank_def)
  then show "\<exists>es. set es \<subseteq> set space_runes \<and> s = concat es"
  proof (induction s rule: TrimLeft.induct)
    case (1 s)
    show ?case
    proof (cases "leading_space s")
      case None
      then have "s = []" using "1.prems" by (subst (asm) TrimLeft.simps) simp
      then show ?thesis by (intro exI [of _ "[]"]) simp
    next
      case (Some e)
      then have e: "e \<in> set space_runes" "prefix e s"
        by (simp_all add: leading_space_Some_iff)
      have "TrimLeft (drop (length e) s) = []"
        using "1.prems" Some by (subst (asm) TrimLeft.simps) simp
      then obtain es where es: "set es \<subseteq> set space_runes" "drop (length e) s = concat es"
        using "1.IH" [OF Some] by blast
      have "s = e @ drop (length e) s"
        using e(2) by (auto simp: prefix_def)
      then have "s = concat (e # es)" using es(2) by simp
      then show ?thesis using e(1) es(1) by (intro exI [of _ "e # es"]) simp
    qed
  qed
next
  assume "\<exists>es. set es \<subseteq> set space_runes \<and> s = concat es"
  then obtain es where "set es \<subseteq> set space_runes" "s = concat es" by blast
  then show "blank s"
    using TrimLeft_runes [of es "[]"] by (simp add: blank_def TrimLeft_Nil)
qed


lemma concat_runes_hd:
  assumes "set es \<subseteq> set space_runes" and "concat es \<noteq> []"
  shows "\<not> continuation_byte (hd (concat es))"
proof (cases es)
  case Nil
  then show ?thesis using assms(2) by simp
next
  case (Cons e es')
  then have "e \<in> set space_runes" using assms(1) by simp
  then have "e \<noteq> []" "\<not> continuation_byte (hd e)"
    using space_runes_nonempty space_runes_bytes by blast+
  then show ?thesis using Cons by simp
qed

lemma no_rune_across:
  assumes "leading_space x = None" and "x \<noteq> []" and "blank r"
  shows "leading_space (x @ r) = None"
proof (rule ccontr)
  assume "leading_space (x @ r) \<noteq> None"
  then obtain e where e: "e \<in> set space_runes" "prefix e (x @ r)"
    by (auto simp: leading_space_Some_iff)
  have "\<not> prefix e x"
    using assms(1) e(1) by (simp add: leading_space_None_iff)
  then obtain q where q: "e = x @ q" "prefix q r"
    using e(2) by (auto simp: prefix_append)
  have "q \<noteq> []" using q(1) \<open>\<not> prefix e x\<close> by auto
  then have "hd q \<in> set (tl e)"
    using q(1) assms(2) by (cases x; cases q) auto
  then have "continuation_byte (hd q)"
    using e(1) space_runes_bytes by blast
  obtain es where es: "set es \<subseteq> set space_runes" "r = concat es"
    using assms(3) by (auto simp: blank_iff)
  have "r \<noteq> []" "hd r = hd q"
    using q(2) \<open>q \<noteq> []\<close> by (auto simp: prefix_def)
  then have "\<not> continuation_byte (hd q)"
    using concat_runes_hd [OF es(1)] es(2) by auto
  then show False using \<open>continuation_byte (hd q)\<close> by simp
qed

lemma TrimSpace_blank_right:
  assumes "blank r"
  shows "TrimSpace (x @ r) = TrimSpace x"
proof -
  obtain es where es: "set es \<subseteq> set space_runes" "r = concat es"
    using assms by (auto simp: blank_iff)
  have "TrimRight (TrimLeft (x @ r)) = TrimRight (TrimLeft x)"
  proof (induction x rule: TrimLeft.induct)
    case (1 x)
    show ?case
    proof (cases "leading_space x")
      case (Some e)
      then have e: "e \<in> set space_runes" "prefix e x"
        by (simp_all add: leading_space_Some_iff)
      then have "leading_space (x @ r) = Some e"
        by (simp add: leading_space_Some_iff)
      moreover have "drop (length e) (x @ r) = drop (length e) x @ r"
        using e(2) by (auto simp: prefix_def)
      ultimately have "TrimLeft (x @ r) = TrimLeft (drop (length e) x @ r)"
        by (subst TrimLeft.simps) simp
      moreover have "TrimLeft x = TrimLeft (drop (length e) x)"
        using Some by (subst TrimLeft.simps) simp
      ultimately show ?thesis
        using "1.IH" [OF Some] by simp
    next
      case None
      then have tx: "TrimLeft x = x"
        by (subst TrimLeft.simps) simp
      show ?thesis
      proof (cases "x = []")
        case True
        have "TrimLeft r = []" using assms by (simp add: blank_def)
        then show ?thesis using True by (simp add: TrimLeft_Nil)
      next
        case False
        then have "leading_space (x @ r) = None"
          using no_rune_across [OF None _ assms] by simp
        then have "TrimLeft (x @ r) = x @ r"
          by (subst TrimLeft.simps) simp
        then show ?thesis
          using tx TrimRight_runes [OF es(1), of x] es(2) by simp
      qed
    qed
  qed
  then show ?thesis by (simp add: TrimSpace_def)
qed

lemma TrimSpace_blank_left:
  assumes "blank l"
  shows "TrimSpace (l @ x) = TrimSpace x"
proof -
  obtain es where "set es \<subseteq> set space_runes" "l = concat es"
    using assms by (auto simp: blank_iff)
  then show ?thesis
    by (simp add: TrimSpace_def TrimLeft_runes)
qed

lemma TrimSpace_padded:
  assumes "blank l" and "blank r"
  shows "TrimSpace (l @ x @ r) = TrimSpace x"
  using assms by (simp add: TrimSpace_blank_left TrimSpace_blank_right)

lemma TrimSpace_trimmed: "trimmed c \<Longrightarrow> TrimSpace c = c"
proof -
  assume "trimmed c"
  then have "leading_space c = None" "trailing_space c = None"
    by (simp_all add: trimmed_def)
  then have "TrimLeft c = c" "TrimRight c = c"
    by (subst TrimLeft.simps TrimRight.simps; simp)+
  then show ?thesis by (simp add: TrimSpace_def)
qed

lemma blank_Nil: "blank []"
  by (simp add: blank_def TrimLeft_Nil)

lemma blank_append: "blank a \<Longrightarrow> blank b \<Longrightarrow> blank (a @ b)"
proof -
  assume "blank a" "blank b"
  then obtain as bs where "set as \<subseteq> set space_runes" "a = concat as"
      "set bs \<subseteq> set space_runes" "b = concat bs"
    by (auto simp: blank_iff)
  then have "set (as @ bs) \<subseteq> set space_runes \<and> a @ b = concat (as @ bs)" by simp
  then show ?thesis unfolding blank_iff by blast
qed

lemma blank_rune: "e \<in> set space_runes \<Longrightarrow> blank e"
  unfolding blank_iff by (intro exI [of _ "[e]"]) simp

lemma TrimLeft_decomposition:
  "\<exists>l. blank l \<and> s = l @ TrimLeft s \<and> leading_space (TrimLeft s) = None"
proof (induction s rule: TrimLeft.induct)
  case (1 s)
  show ?case
  proof (cases "leading_space s")
    case None
    then have "TrimLeft s = s" by (subst TrimLeft.simps) simp
    then show ?thesis using None blank_Nil by (intro exI [of _ "[]"]) simp
  next
    case (Some e)
    then have e: "e \<in> set space_runes" "prefix e s"
      by (simp_all add: leading_space_Some_iff)
    have t: "TrimLeft s = TrimLeft (drop (length e) s)"
      using Some by (subst TrimLeft.simps) simp
    obtain l where l: "blank l" "drop (length e) s = l @ TrimLeft (drop (length e) s)"
        "leading_space (TrimLeft (drop (length e) s)) = None"
      using "1.IH" [OF Some] by blast
    have "s = e @ drop (length e) s"
      using e(2) by (auto simp: prefix_def)
    then have "s = e @ (l @ TrimLeft (drop (length e) s))"
      using l(2) by metis
    then have "s = (e @ l) @ TrimLeft s"
      using t by simp
    moreover have "blank (e @ l)"
      using e(1) l(1) by (simp add: blank_append blank_rune)
    ultimately show ?thesis
      using l(3) t by (intro exI [of _ "e @ l"]) simp
  qed
qed

lemma TrimRight_decomposition:
  "\<exists>r. blank r \<and> s = TrimRight s @ r \<and> trailing_space (TrimRight s) = None"
proof (induction s rule: TrimRight.induct)
  case (1 s)
  show ?case
  proof (cases "trailing_space s")
    case None
    then have "TrimRight s = s" by (subst TrimRight.simps) simp
    then show ?thesis using None blank_Nil by (intro exI [of _ "[]"]) simp
  next
    case (Some e)
    then have e: "e \<in> set space_runes" "suffix e s"
      by (simp_all add: trailing_space_Some_iff)
    let ?s' = "take (length s - length e) s"
    have t: "TrimRight s = TrimRight ?s'"
      using Some by (subst TrimRight.simps) simp
    obtain r where r: "blank r" "?s' = TrimRight ?s' @ r" "trailing_space (TrimRight ?s') = None"
      using "1.IH" [OF Some] by blast
    have "s = ?s' @ e"
      using e(2) by (auto simp: suffix_def)
    then have "s = (TrimRight ?s' @ r) @ e"
      using r(2) by metis
    then have "s = TrimRight s @ (r @ e)"
      using t by simp
    moreover have "blank (r @ e)"
      using e(1) r(1) by (simp add: blank_append blank_rune)
    ultimately show ?thesis
      using r(3) t by (intro exI [of _ "r @ e"]) simp
  qed
qed

lemma TrimSpace_decomposition:
  "\<exists>l r. blank l \<and> blank r \<and> s = l @ TrimSpace s @ r \<and> trimmed (TrimSpace s)"
proof -
  obtain l where l: "blank l" "s = l @ TrimLeft s" "leading_space (TrimLeft s) = None"
    using TrimLeft_decomposition by blast
  obtain r where r: "blank r" "TrimLeft s = TrimRight (TrimLeft s) @ r"
      "trailing_space (TrimRight (TrimLeft s)) = None"
    using TrimRight_decomposition by blast
  have "leading_space (TrimRight (TrimLeft s)) = None"
  proof -
    have "\<forall>e \<in> set space_runes. \<not> prefix e (TrimLeft s)"
      using l(3) by (simp add: leading_space_None_iff)
    moreover have "prefix (TrimRight (TrimLeft s)) (TrimLeft s)"
      using r(2) by (metis prefixI)
    ultimately have "\<forall>e \<in> set space_runes. \<not> prefix e (TrimRight (TrimLeft s))"
      using prefix_order.trans by blast
    then show ?thesis by (simp add: leading_space_None_iff)
  qed
  then have "trimmed (TrimSpace s)"
    using r(3) by (simp add: trimmed_def TrimSpace_def)
  moreover have "s = l @ TrimSpace s @ r"
    using l(2) r(2) by (simp add: TrimSpace_def)
  ultimately show ?thesis using l(1) r(1) by blast
qed

lemma sample_strings:
  "blank ''  ''" "blank [CHR 0x0A]" "blank []" "blank [CHR 0xC2, CHR 0xA0]"
  "trimmed ''multi line''" "trimmed ''first''" "trimmed ''second''"
  by (code_simp+)

text \<open>
  C6. The diff suppression of \<^verbatim>\<open>description\<close> and of \<^verbatim>\<open>comments\<close> holds exactly when the old
  and the new value are equal after \<^verbatim>\<open>strings.TrimSpace\<close>. Every string is a core with no white
  space at either end, between two runs of white space, and trimming returns the core: so two
  values with the same core compare as equal whatever white space surrounds them, and two
  values with different cores compare as unequal.
\<close>

theorem diff_suppress_is_trimmed_equality:
  "(description_DiffSuppressFunc k oldValue newValue d \<longleftrightarrow> TrimSpace oldValue = TrimSpace newValue)
   \<and> (comments_DiffSuppressFunc k oldValue newValue d \<longleftrightarrow> TrimSpace oldValue = TrimSpace newValue)
   \<and> (blank l1 \<and> blank r1 \<and> blank l2 \<and> blank r2 \<longrightarrow>
        description_DiffSuppressFunc k (l1 @ c1 @ r1) (l2 @ c1 @ r2) d
        \<and> comments_DiffSuppressFunc k (l1 @ c1 @ r1) (l2 @ c1 @ r2) d)
   \<and> (blank l1 \<and> blank r1 \<and> blank l2 \<and> blank r2 \<and> trimmed c1 \<and> trimmed c2 \<longrightarrow>
        TrimSpace (l1 @ c1 @ r1) = c1
        \<and> (description_DiffSuppressFunc k (l1 @ c1 @ r1) (l2 @ c2 @ r2) d \<longleftrightarrow> c1 = c2)
        \<and> (comments_DiffSuppressFunc k (l1 @ c1 @ r1) (l2 @ c2 @ r2) d \<longleftrightarrow> c1 = c2))
   \<and> (\<exists>l r. blank l \<and> blank r \<and> oldValue = l @ TrimSpace oldValue @ r \<and> trimmed (TrimSpace oldValue))"
  using TrimSpace_decomposition [of oldValue]
  by (simp add: description_DiffSuppressFunc_def comments_DiffSuppressFunc_def TrimSpace_padded
      TrimSpace_trimmed)

theorem diff_suppress_is_trimmed_equality_witness:
  "description_DiffSuppressFunc ''description'' (''  multi line'' @ [CHR 0x0A]) ''multi line'' sample_ip_range
   \<and> comments_DiffSuppressFunc ''comments'' ([CHR 0xC2, CHR 0xA0] @ ''multi line'') ''multi line  '' sample_ip_range
   \<and> TrimSpace (''  first'' @ [CHR 0x0A]) = ''first''
   \<and> \<not> description_DiffSuppressFunc ''description'' (''  first'' @ [CHR 0x0A]) ''second  '' sample_ip_range"
proof -
  have ne: "''first'' \<noteq> ''second''" by simp
  show ?thesis
    using diff_suppress_is_trimmed_equality [of "''description''" "[]" "[]" sample_ip_range
        "''  ''" "[CHR 0x0A]" "[]" "[]" "''multi line''" "''multi line''"]
      diff_suppress_is_trimmed_equality [of "''comments''" "[]" "[]" sample_ip_range
        "[CHR 0xC2, CHR 0xA0]" "[]" "[]" "''  ''" "''multi line''" "''multi line''"]
      diff_suppress_is_trimmed_equality [of "''description''" "[]" "[]" sample_ip_range
        "''  ''" "[CHR 0x0A]" "[]" "''  ''" "''first''" "''second''"]
      sample_strings ne
    by simp
qed

end
